theory Spec2Isabelle
  imports Main
begin

section \<open>JavaScript values and string operations used by the scripts\<close>

text \<open>
  A JavaScript string that may be \<open>undefined\<close> is a \<open>string option\<close>. In a condition
  \<open>undefined\<close> and the empty string are falsy, every other string is truthy.
\<close>

definition truthy :: "string option \<Rightarrow> bool" where
  "truthy v = (case v of None \<Rightarrow> False | Some s \<Rightarrow> s \<noteq> [])"

text \<open>A template literal prints \<open>undefined\<close> for an undefined value.\<close>

definition template :: "string option \<Rightarrow> string" where
  "template v = (case v of None \<Rightarrow> ''undefined'' | Some s \<Rightarrow> s)"

text \<open>\<open>a || b\<close> and \<open>a ?? b\<close> on optional strings.\<close>

definition js_or :: "string option \<Rightarrow> string option \<Rightarrow> string option" where
  "js_or a b = (if truthy a then a else b)"

definition nullish_or :: "string option \<Rightarrow> string \<Rightarrow> string" where
  "nullish_or a b = (case a of None \<Rightarrow> b | Some s \<Rightarrow> s)"

text \<open>
  What a \<open>throw\<close> (or a rejected promise) can carry: an error object with a name and a
  message, a string, or \<open>undefined\<close>. \<open>String_of\<close> is \<open>String(error)\<close>.
\<close>

datatype thrown = ErrorObj string string | StringVal string | UndefinedVal

fun String_of :: "thrown \<Rightarrow> string" where
  "String_of (ErrorObj name msg) =
     (if name = [] then msg else if msg = [] then name else name @ '': '' @ msg)"
| "String_of (StringVal s) = s"
| "String_of UndefinedVal = ''undefined''"

fun truthy_thrown :: "thrown \<Rightarrow> bool" where
  "truthy_thrown (ErrorObj name msg) = True"
| "truthy_thrown (StringVal s) = (s \<noteq> [])"
| "truthy_thrown UndefinedVal = False"

definition new_Error :: "string \<Rightarrow> thrown" where
  "new_Error msg = ErrorObj ''Error'' msg"

definition TypeError :: "string \<Rightarrow> thrown" where
  "TypeError msg = ErrorObj ''TypeError'' msg"

text \<open>\<open>String.prototype.indexOf\<close>: the first position of the needle, or \<open>-1\<close>.\<close>

fun startsWith :: "string \<Rightarrow> string \<Rightarrow> bool" where
  "startsWith s [] = True"
| "startsWith [] (n # ns) = False"
| "startsWith (c # cs) (n # ns) = (c = n \<and> startsWith cs ns)"

fun indexOf_from :: "string \<Rightarrow> string \<Rightarrow> int \<Rightarrow> int" where
  "indexOf_from [] needle i = (if needle = [] then i else - 1)"
| "indexOf_from (c # cs) needle i =
     (if startsWith (c # cs) needle then i else indexOf_from cs needle (i + 1))"

definition indexOf :: "string \<Rightarrow> string \<Rightarrow> int" where
  "indexOf s needle = indexOf_from s needle 0"

text \<open>\<open>String.prototype.split\<close> on a one-character separator, and \<open>Array.prototype.join\<close>.\<close>

fun split :: "char \<Rightarrow> string \<Rightarrow> string list" where
  "split sep [] = [[]]"
| "split sep (c # cs) =
     (if c = sep then [] # split sep cs
      else (case split sep cs of [] \<Rightarrow> [[c]] | w # ws \<Rightarrow> (c # w) # ws))"

fun join :: "string \<Rightarrow> string list \<Rightarrow> string" where
  "join sep [] = []"
| "join sep [x] = x"
| "join sep (x # y # ys) = x @ sep @ join sep (y # ys)"

text \<open>A number in a template literal: its decimal digits.\<close>

fun decimal :: "nat \<Rightarrow> string" where
  "decimal n =
     (if n < 10 then [''0123456789'' ! n]
      else decimal (n div 10) @ [''0123456789'' ! (n mod 10)])"

declare decimal.simps [simp del]

text \<open>Array indexing \<open>xs[i]\<close>: \<open>undefined\<close> out of range.\<close>

fun at_index :: "'a list \<Rightarrow> nat \<Rightarrow> 'a option" where
  "at_index [] i = None"
| "at_index (x # xs) 0 = Some x"
| "at_index (x # xs) (Suc i) = at_index xs i"

section \<open>Data model\<close>

text \<open>The value of a target in the extension descriptor: \<open>true\<close> or \<open>{ env: ... }\<close>.\<close>

datatype targetData = TargetTrue | TargetObject "(string \<times> string) list option"

text \<open>
  The extension descriptor. \<open>ext_target\<close> is the \<open>target\<close> object as the list of its
  entries in \<open>Object.entries\<close> order.
\<close>

record extension =
  ext_id :: string
  location :: "string option"
  custom :: "string list option"
  prepublish :: "string option"
  extensionFile :: "string option"
  pythonVersion :: "string option"
  ext_target :: "(string \<times> targetData) list option"

text \<open>A date field: the raw value read from the context, or \<open>new Date\<close> of one.\<close>

datatype jsdate = RawDate "string option" | NewDate jsdate

record publishContext =
  repo :: "string option"
  ref :: "string option"
  version :: "string option"
  msVersion :: "string option"
  msLastUpdated :: jsdate
  ovsxVersion :: "string option"
  ovsxLastUpdated :: jsdate
  ctx_file :: "string option"
  files :: "(string \<times> string) list option"
  target :: "string option"
  environmentVariables :: "(string \<times> string) list option"

text \<open>The \<open>options\<close> object that \<open>buildVersion\<close> returns.\<close>

record options =
  opt_extensionFile :: string
  targets :: "string option list option"
  yarn :: "bool option"

text \<open>
  The manifests read from a packaged artifact: the package manifest with the fields the
  scripts read, and the XML manifest as \<open>xml2js\<close> gives it, to the depth the scripts read.
\<close>

record manifest =
  man_version :: "string option"
  license :: "string option"
  extensionDependencies :: "string list option"

record identity_attributes =
  Id_attr :: "string option"
  Version :: "string option"
  Publisher :: "string option"

record identity_element =
  dollar :: "identity_attributes option"

record metadata_element =
  Identity :: "identity_element list option"
  License :: "string list option"

record packageManifest =
  Metadata :: "metadata_element list option"

record xmlManifest =
  PackageManifest :: "packageManifest option"

text \<open>\<open>xmlManifest?.PackageManifest?.Metadata[0]\<close>\<close>

definition xml_metadata0 :: "xmlManifest option \<Rightarrow> thrown + metadata_element option" where
  "xml_metadata0 xm =
     (case xm of None \<Rightarrow> Inr None
      | Some x \<Rightarrow>
         (case PackageManifest x of None \<Rightarrow> Inr None
          | Some pm \<Rightarrow>
             (case Metadata pm of
                None \<Rightarrow> Inl (TypeError ''Cannot read properties of undefined (reading 0)'')
              | Some ms \<Rightarrow> Inr (at_index ms 0))))"

text \<open>\<open>xmlManifest?.PackageManifest?.Metadata[0]?.Identity[0]["$"]\<close>\<close>

definition xml_identity :: "xmlManifest option \<Rightarrow> thrown + identity_attributes option" where
  "xml_identity xm =
     (case xml_metadata0 xm of Inl e \<Rightarrow> Inl e
      | Inr None \<Rightarrow> Inr None
      | Inr (Some m) \<Rightarrow>
         (case Identity m of
            None \<Rightarrow> Inl (TypeError ''Cannot read properties of undefined (reading 0)'')
          | Some ids \<Rightarrow>
             (case at_index ids 0 of
                None \<Rightarrow> Inl (TypeError ''Cannot read properties of undefined (reading $)'')
              | Some i \<Rightarrow> Inr (dollar i))))"

text \<open>\<open>xmlManifest?.PackageManifest?.Metadata[0]?.Identity[0]["$"]?.Version\<close>\<close>

definition xml_version :: "xmlManifest option \<Rightarrow> thrown + string option" where
  "xml_version xm =
     (case xml_identity xm of Inl e \<Rightarrow> Inl e
      | Inr None \<Rightarrow> Inr None
      | Inr (Some a) \<Rightarrow> Inr (Version a))"

text \<open>\<open>xmlManifest?.PackageManifest?.Metadata[0]?.License?.[0]\<close>\<close>

definition xml_license :: "xmlManifest option \<Rightarrow> thrown + string option" where
  "xml_license xm =
     (case xml_metadata0 xm of Inl e \<Rightarrow> Inl e
      | Inr None \<Rightarrow> Inr None
      | Inr (Some m) \<Rightarrow>
         (case License m of None \<Rightarrow> Inr None | Some ls \<Rightarrow> Inr (at_index ls 0)))"

section \<open>Process state and the outside world\<close>

text \<open>
  The file system maps a path, compared as it is written, to a file with its text or to a
  directory.
\<close>

datatype node = File string | Dir

type_synonym filesystem = "string \<rightharpoonup> node"

text \<open>What the scripts write to the console, by console method and content.\<close>

datatype log_entry =
    Building string string
  | Processing extension publishContext
  | ConsoleDebug string
  | ConsoleLog string
  | ConsoleInfo string
  | ConsoleError string
  | LogThrown thrown
  | Fail extension publishContext
  | ErrorThrown thrown

text \<open>
  The state of the process: \<open>process.env\<close>, the file system, the rest of the outside world
  (network, registry, child processes), the console, \<open>process.exitCode\<close>, and the contents of
  the \<open>publishContext\<close> object, which the build mutates in place.
\<close>

record 'w state =
  env :: "string \<rightharpoonup> string"
  fs :: filesystem
  world :: 'w
  console :: "log_entry list"
  exitCode :: "int option"
  ctx :: publishContext

text \<open>
  A computation returns a value or throws, and changes the state. An external collaborator
  acts on the file system and the outside world only.
\<close>

type_synonym ('w, 'a) prog = "'w state \<Rightarrow> (thrown + 'a) \<times> 'w state"

type_synonym ('w, 'a) ext = "filesystem \<times> 'w \<Rightarrow> (thrown + 'a) \<times> (filesystem \<times> 'w)"

definition returnP :: "'a \<Rightarrow> ('w, 'a) prog" where
  "returnP x s = (Inr x, s)"

definition throwP :: "thrown \<Rightarrow> ('w, 'a) prog" where
  "throwP e s = (Inl e, s)"

definition bindP :: "('w, 'a) prog \<Rightarrow> ('a \<Rightarrow> ('w, 'b) prog) \<Rightarrow> ('w, 'b) prog" where
  "bindP m f s = (case m s of (Inl e, s') \<Rightarrow> (Inl e, s') | (Inr x, s') \<Rightarrow> f x s')"

definition liftE :: "thrown + 'a \<Rightarrow> ('w, 'a) prog" where
  "liftE r s = (r, s)"

text \<open>\<open>try { m } catch (e) { h e }\<close>\<close>

definition tryCatch :: "('w, 'a) prog \<Rightarrow> (thrown \<Rightarrow> ('w, 'a) prog) \<Rightarrow> ('w, 'a) prog" where
  "tryCatch m h s = (case m s of (Inl e, s') \<Rightarrow> h e s' | (Inr x, s') \<Rightarrow> (Inr x, s'))"

text \<open>
  \<open>try { m } finally { fin }\<close>: the finally block runs in both cases, and what it throws
  replaces the outcome of the try block.
\<close>

definition tryFinally :: "('w, 'a) prog \<Rightarrow> ('w, unit) prog \<Rightarrow> ('w, 'a) prog" where
  "tryFinally m fin s =
     (case m s of (r, s') \<Rightarrow>
        (case fin s' of (Inl e, s'') \<Rightarrow> (Inl e, s'') | (Inr u, s'') \<Rightarrow> (r, s'')))"

definition ext_call :: "('w, 'a) ext \<Rightarrow> ('w, 'a) prog" where
  "ext_call f s =
     (case f (fs s, world s) of (r, (fs', w')) \<Rightarrow> (r, s\<lparr>fs := fs', world := w'\<rparr>))"

definition console_write :: "log_entry \<Rightarrow> ('w, unit) prog" where
  "console_write l s = (Inr (), s\<lparr>console := console s @ [l]\<rparr>)"

text \<open>\<open>process.env[k] = v\<close>: the environment stores the string form of the value.\<close>

definition env_assign :: "string \<Rightarrow> string option \<Rightarrow> ('w, unit) prog" where
  "env_assign k v s = (Inr (), s\<lparr>env := (env s)(k \<mapsto> template v)\<rparr>)"

text \<open>\<open>process.env[k] ??= v\<close>\<close>

definition env_default :: "string \<Rightarrow> string \<Rightarrow> ('w, unit) prog" where
  "env_default k v s =
     (case env s k of None \<Rightarrow> (Inr (), s\<lparr>env := (env s)(k \<mapsto> v)\<rparr>) | Some old \<Rightarrow> (Inr (), s))"

definition get_ctx :: "('w, publishContext) prog" where
  "get_ctx s = (Inr (ctx s), s)"

definition get_env :: "('w, string \<rightharpoonup> string) prog" where
  "get_env s = (Inr (env s), s)"

definition set_exitCode :: "int \<Rightarrow> ('w, unit) prog" where
  "set_exitCode n s = (Inr (), s\<lparr>exitCode := Some n\<rparr>)"

definition modify_ctx :: "(publishContext \<Rightarrow> publishContext) \<Rightarrow> ('w, unit) prog" where
  "modify_ctx f s = (Inr (), s\<lparr>ctx := f (ctx s)\<rparr>)"

subsection \<open>The \<open>fs\<close> module\<close>

definition existsSync :: "string \<Rightarrow> ('w, bool) prog" where
  "existsSync p s = (Inr (fs s p \<noteq> None), s)"

text \<open>
  \<open>fs.rmSync(p)\<close> without options removes the file at the path \<open>p\<close>. It takes the path as it
  is (no wildcard expansion) and throws when nothing is there or when it is a directory.
\<close>

definition rmSync :: "string \<Rightarrow> ('w, unit) prog" where
  "rmSync p s =
     (case fs s p of
        None \<Rightarrow> (Inl (ErrorObj ''Error'' (''ENOENT: no such file or directory, rm '' @ p)), s)
      | Some Dir \<Rightarrow> (Inl (ErrorObj ''SystemError'' (''Path is a directory: rm '' @ p)), s)
      | Some (File c) \<Rightarrow> (Inr (), s\<lparr>fs := (fs s)(p := None)\<rparr>))"

definition mkdirSync :: "string \<Rightarrow> ('w, unit) prog" where
  "mkdirSync p s =
     (case fs s p of
        None \<Rightarrow> (Inr (), s\<lparr>fs := (fs s)(p \<mapsto> Dir)\<rparr>)
      | Some n \<Rightarrow> (Inl (ErrorObj ''Error'' (''EEXIST: file already exists, mkdir '' @ p)), s))"

definition copyFileSync :: "string \<Rightarrow> string \<Rightarrow> ('w, unit) prog" where
  "copyFileSync src dest s =
     (case fs s src of
        Some (File c) \<Rightarrow>
          (if fs s dest = Some Dir
           then (Inl (ErrorObj ''Error'' (''EISDIR: illegal operation on a directory, copyfile '' @ src)), s)
           else (Inr (), s\<lparr>fs := (fs s)(dest \<mapsto> File c)\<rparr>))
      | other \<Rightarrow> (Inl (ErrorObj ''Error'' (''ENOENT: no such file or directory, copyfile '' @ src)), s))"

text \<open>\<open>fs.access(p, callback)\<close>, read as "the callback got no error".\<close>

definition access :: "string \<Rightarrow> ('w, bool) prog" where
  "access p s = (Inr (fs s p \<noteq> None), s)"

definition readFile :: "string \<Rightarrow> ('w, string) prog" where
  "readFile p s =
     (case fs s p of
        Some (File c) \<Rightarrow> (Inr c, s)
      | Some Dir \<Rightarrow> (Inl (ErrorObj ''Error'' (''EISDIR: illegal operation on a directory, read'')), s)
      | None \<Rightarrow> (Inl (ErrorObj ''Error'' (''ENOENT: no such file or directory, open '' @ p)), s))"

definition writeFile :: "string \<Rightarrow> string \<Rightarrow> ('w, unit) prog" where
  "writeFile p content s =
     (if fs s p = Some Dir
      then (Inl (ErrorObj ''Error'' (''EISDIR: illegal operation on a directory, open '' @ p)), s)
      else (Inr (), s\<lparr>fs := (fs s)(p \<mapsto> File content)\<rparr>))"

section \<open>External collaborators and constants\<close>

record exec_options =
  cwd :: "string option"
  quiet :: "bool option"

record createVSIX_options =
  cv_cwd :: "string option"
  cv_packagePath :: string
  cv_useYarn :: "bool option"
  cv_target :: "string option"

datatype publishedExtension = PublishedExtension string

text \<open>
  The libraries and services the scripts call, and the constants of \<open>lib/constants\<close> and
  \<open>lib/reportStat\<close>, as parameters. A call that reaches outside the process acts on the file
  system and the outside world, and returns or throws; a child process also sees
  \<open>process.env\<close>.
  \<^item> \<open>semver_compare a b\<close> is \<open>semver.compare(a, b)\<close>: negative, zero or positive, or it
    throws on an invalid version. \<open>semver.gt(a, b)\<close> is \<open>compare(a, b) > 0\<close> and
    \<open>semver.eq(a, b)\<close> is \<open>compare(a, b) === 0\<close>.
  \<^item> \<open>package_json_migration text\<close> stands for the rewriting of \<open>package.json\<close> after a failed
    install: it throws (the text does not parse, or a field is missing), or gives \<open>None\<close>
    when the post-install script is not the legacy one, or gives the rewritten text.
  \<^item> \<open>catalogue_keys text\<close> is \<open>Object.keys(JSON.parse(text))\<close> for the text of
    \<open>extensions.json\<close>.
  \<^item> \<open>zip_entries path\<close> gives the entries of an archive, name and text, in archive order.
  \<^item> \<open>parse_xml text\<close> is the \<open>xml2js\<close> parser.
  \<^item> \<open>toLowerCase s\<close> is \<open>String.prototype.toLowerCase\<close> of the runtime, which lowers every
    cased letter of the string.
\<close>

record 'w externals =
  artifactDirectory :: string
  defaultPythonVersion :: string
  registryHost :: string
  cannotPublish :: "string list"
  exec :: "string \<Rightarrow> exec_options \<Rightarrow> (string \<rightharpoonup> string) \<Rightarrow> ('w, unit) ext"
  resolveExtension :: "extension \<Rightarrow> (string \<times> jsdate) option \<Rightarrow> ('w, unit) ext"
  findUp :: "string \<Rightarrow> string \<Rightarrow> ('w, string option) ext"
  fast_glob :: "string \<Rightarrow> string \<Rightarrow> ('w, string list) ext"
  createVSIX :: "createVSIX_options \<Rightarrow> (string \<rightharpoonup> string) \<Rightarrow> ('w, unit) ext"
  readVSIXPackage :: "string \<Rightarrow> ('w, xmlManifest option \<times> manifest) ext"
  isLicenseOk :: "string \<Rightarrow> manifest \<Rightarrow> ('w, bool) ext"
  getExtension :: "string \<Rightarrow> ('w, publishedExtension option) ext"
  semver_compare :: "string \<Rightarrow> string \<Rightarrow> thrown + int"
  path_join :: "string list \<Rightarrow> string"
  package_json_migration :: "string \<Rightarrow> thrown + string option"
  catalogue_keys :: "string \<Rightarrow> thrown + string list"
  zip_entries :: "string \<Rightarrow> ('w, (string \<times> string) list) ext"
  parse_xml :: "string \<Rightarrow> thrown + xmlManifest option"
  toLowerCase :: "string \<Rightarrow> string"
  createNamespace :: "string \<Rightarrow> string \<Rightarrow> ('w, unit) ext"
  publish :: "string \<Rightarrow> string \<Rightarrow> ('w, unit) ext"

definition run_exec :: "'w externals \<Rightarrow> string \<Rightarrow> exec_options \<Rightarrow> ('w, unit) prog" where
  "run_exec X command opts s = ext_call (exec X command opts (env s)) s"

definition no_options :: exec_options where
  "no_options = \<lparr>cwd = None, quiet = None\<rparr>"

section \<open>The build script\<close>

subsection \<open>\<open>ensureBuildPrerequisites\<close>\<close>

definition ensureBuildPrerequisites :: "'w externals \<Rightarrow> ('w, unit) prog" where
  "ensureBuildPrerequisites X =
     bindP (run_exec X ''yarn config set script-shell /bin/bash'' no_options) (\<lambda>u1.
     bindP (run_exec X ''git config --global advice.detachedHead false'' no_options) (\<lambda>u2.
     bindP (existsSync (artifactDirectory X)) (\<lambda>ex.
       if ex then tryCatch (rmSync (artifactDirectory X @ ''*'')) (\<lambda>e. returnP ())
       else mkdirSync (artifactDirectory X))))"

subsection \<open>\<open>buildVersion\<close>: locating or building the artifact\<close>

definition isBuiltIn :: "string \<Rightarrow> bool" where
  "isBuiltIn dep = (at_index (split CHR ''.'' dep) 0 = Some ''vscode'')"

definition run_createVSIX :: "'w externals \<Rightarrow> createVSIX_options \<Rightarrow> ('w, unit) prog" where
  "run_createVSIX X opts s = ext_call (createVSIX X opts (env s)) s"

definition packagePath_of :: "'w externals \<Rightarrow> extension \<Rightarrow> publishContext \<Rightarrow> string option" where
  "packagePath_of X extension c =
     (case (repo c, location extension) of
        (Some r, Some l) \<Rightarrow> if r \<noteq> [] \<and> l \<noteq> [] then Some (path_join X [r, l]) else repo c
      | other \<Rightarrow> repo c)"

text \<open>The best-effort selection of the Node and Python versions; what it throws is dropped.\<close>

definition runtime_pinning :: "'w externals \<Rightarrow> extension \<Rightarrow> string \<Rightarrow> ('w, unit) prog" where
  "runtime_pinning X extension r =
     (let dir = path_join X [r, nullish_or (location extension) ''.''] in
      tryCatch
        (bindP (ext_call (findUp X ''.nvmrc'' dir)) (\<lambda>nvmFile.
         bindP (if truthy nvmFile
                then run_exec X ''source ~/.nvm/nvm.sh && nvm install''
                       \<lparr>cwd = Some dir, quiet = Some True\<rparr>
                else returnP ()) (\<lambda>u.
         case pythonVersion extension of
           None \<Rightarrow> returnP ()
         | Some pv \<Rightarrow>
             if pv = [] then returnP ()
             else bindP (console_write (ConsoleDebug ''Installing appropriate Python version...'')) (\<lambda>u.
                  run_exec X (''pyenv install -s '' @ pv @ '' && pyenv global '' @ pv)
                    \<lparr>cwd = Some dir, quiet = Some False\<rparr>))))
        (\<lambda>e. returnP ()))"

primrec run_commands :: "'w externals \<Rightarrow> string \<Rightarrow> string list \<Rightarrow> ('w, unit) prog" where
  "run_commands X r [] = returnP ()"
| "run_commands X r (command # rest) =
     bindP (run_exec X command \<lparr>cwd = Some r, quiet = None\<rparr>) (\<lambda>u. run_commands X r rest)"

definition custom_build ::
  "'w externals \<Rightarrow> extension \<Rightarrow> string list \<Rightarrow> string \<Rightarrow> string option \<Rightarrow> ('w, options) prog" where
  "custom_build X extension commands r tgt =
     bindP (run_commands X r commands) (\<lambda>u.
     if \<not> truthy tgt then
       returnP \<lparr>opt_extensionFile =
                  path_join X [r, nullish_or (location extension) ''.'',
                               nullish_or (extensionFile extension) ''extension.vsix''],
                targets = None, yarn = None\<rparr>
     else
       (let t = nullish_or tgt [] in
        bindP (console_write
                 (ConsoleInfo (''Looking for a '' @ t @ '' vsix package in '' @ r @ ''...''))) (\<lambda>u.
        bindP (ext_call (fast_glob X (path_join X [''*-'' @ t @ ''-*.vsix'']) r)) (\<lambda>vsixFiles.
        case vsixFiles of
          [] \<Rightarrow>
            throwP (new_Error
              (''After running the custom commands, no .vsix file was found for ''
                 @ ext_id extension @ ''@'' @ t))
        | v # vs \<Rightarrow>
            bindP (console_write
                     (ConsoleInfo (''Found '' @ decimal (length vsixFiles) @ '' '' @ t
                        @ '' vsix package(s) in '' @ r @ '': '' @ join '', '' vsixFiles))) (\<lambda>u.
            returnP \<lparr>opt_extensionFile = path_join X [r, v],
                     targets = Some [tgt], yarn = None\<rparr>)))))"

definition install_dependencies :: "'w externals \<Rightarrow> bool \<Rightarrow> string \<Rightarrow> ('w, unit) prog" where
  "install_dependencies X useYarn pp =
     (let install = (if useYarn then ''yarn'' else ''npm'') @ '' install'' in
      tryCatch (run_exec X install \<lparr>cwd = Some pp, quiet = None\<rparr>) (\<lambda>e.
        bindP (readFile (path_join X [pp, ''package.json''])) (\<lambda>text.
        bindP (liftE (package_json_migration X text)) (\<lambda>migrated.
        case migrated of
          None \<Rightarrow> throwP e
        | Some content \<Rightarrow>
            bindP (writeFile (path_join X [pp, ''package.json'']) content) (\<lambda>u.
            run_exec X install \<lparr>cwd = Some pp, quiet = None\<rparr>)))))"

definition package_vsix ::
  "'w externals \<Rightarrow> bool \<Rightarrow> string \<Rightarrow> string \<Rightarrow> string option \<Rightarrow> ('w, options) prog" where
  "package_vsix X useYarn r pp tgt =
     (let opts = \<lparr>opt_extensionFile = path_join X [r, ''extension.vsix''], targets = None,
                   yarn = (if useYarn then Some True else None)\<rparr> in
      bindP get_env (\<lambda>e.
      let vsceTests = e ''VSCE_TESTS'' in
      bindP (env_assign ''VSCE_TESTS'' (Some ''1'')) (\<lambda>u.
      bindP (tryFinally
               (run_createVSIX X \<lparr>cv_cwd = Some pp, cv_packagePath = opt_extensionFile opts,
                                  cv_useYarn = yarn opts, cv_target = tgt\<rparr>)
               (env_assign ''VSCE_TESTS'' vsceTests)) (\<lambda>u.
      returnP opts))))"

definition standard_build ::
  "'w externals \<Rightarrow> extension \<Rightarrow> string \<Rightarrow> string \<Rightarrow> string option \<Rightarrow> ('w, options) prog" where
  "standard_build X extension r pp tgt =
     bindP (access (path_join X [r, ''yarn.lock''])) (\<lambda>useYarn.
     bindP (install_dependencies X useYarn pp) (\<lambda>u.
     bindP (case prepublish extension of
              None \<Rightarrow> returnP ()
            | Some cmd \<Rightarrow>
                if cmd = [] then returnP ()
                else run_exec X cmd \<lparr>cwd = Some r, quiet = None\<rparr>) (\<lambda>u.
     bindP (if truthy (extensionFile extension)
            then returnP \<lparr>opt_extensionFile =
                             path_join X [r, nullish_or (extensionFile extension) []],
                           targets = None, yarn = None\<rparr>
            else package_vsix X useYarn r pp tgt) (\<lambda>opts.
     bindP (console_write (ConsoleLog (ext_id extension @ '': prepared from '' @ r))) (\<lambda>u.
     returnP opts)))))"

definition build_from_source ::
  "'w externals \<Rightarrow> extension \<Rightarrow> string \<Rightarrow> string \<Rightarrow> string \<Rightarrow> ('w, options) prog" where
  "build_from_source X extension r rf pp =
     bindP (console_write (ConsoleLog (ext_id extension @ '': preparing from '' @ r @ ''...''))) (\<lambda>u.
     bindP (run_exec X ''rm -rf /tmp/repository /tmp/download''
              \<lparr>cwd = None, quiet = Some True\<rparr>) (\<lambda>u.
     bindP get_ctx (\<lambda>c.
     bindP (ext_call (resolveExtension X extension
              (case msVersion c of
                 None \<Rightarrow> None
               | Some mv \<Rightarrow> if mv = [] then None else Some (mv, msLastUpdated c)))) (\<lambda>u.
     bindP (env_assign ''EXTENSION_ID'' (Some (ext_id extension))) (\<lambda>u.
     bindP (env_assign ''EXTENSION_PUBLISHER''
              (at_index (split CHR ''.'' (ext_id extension)) 0)) (\<lambda>u.
     bindP (env_assign ''EXTENSION_NAME''
              (at_index (split CHR ''.'' (ext_id extension)) 1)) (\<lambda>u.
     bindP (env_assign ''VERSION'' (version c)) (\<lambda>u.
     bindP (env_assign ''MS_VERSION'' (msVersion c)) (\<lambda>u.
     bindP (env_assign ''OVSX_VERSION'' (ovsxVersion c)) (\<lambda>u.
     bindP (run_exec X (''git checkout '' @ rf) \<lparr>cwd = Some r, quiet = None\<rparr>) (\<lambda>u.
     bindP (runtime_pinning X extension r) (\<lambda>u.
     case custom extension of
       Some commands \<Rightarrow> custom_build X extension commands r (target c)
     | None \<Rightarrow> standard_build X extension r pp (target c)))))))))))))"

text \<open>
  Lines 65 to 207: the package path and the \<open>options\<close>, which stay undefined when the context
  has neither a file nor a repository with a ref.
\<close>

definition prepare :: "'w externals \<Rightarrow> extension \<Rightarrow> ('w, string option \<times> options option) prog" where
  "prepare X extension =
     bindP get_ctx (\<lambda>c.
     let packagePath = packagePath_of X extension c in
     if truthy (ctx_file c) then
       returnP (packagePath,
                Some \<lparr>opt_extensionFile = nullish_or (ctx_file c) [],
                      targets = Some [target c], yarn = None\<rparr>)
     else if truthy (repo c) \<and> truthy (ref c) then
       bindP (build_from_source X extension (nullish_or (repo c) []) (nullish_or (ref c) [])
                (nullish_or packagePath [])) (\<lambda>opts.
       returnP (packagePath, Some opts))
     else returnP (packagePath, None))"

subsection \<open>\<open>buildVersion\<close>: the gates\<close>

text \<open>
  Line 210: \<open>options.extensionFile && (await readVSIXPackage(options.extensionFile))\<close>,
  destructured into the two manifests.
\<close>

definition read_manifests ::
  "'w externals \<Rightarrow> options option
     \<Rightarrow> ('w, options \<times> xmlManifest option \<times> manifest option) prog" where
  "read_manifests X options_opt =
     (case options_opt of
        None \<Rightarrow> throwP (TypeError ''Cannot read properties of undefined (reading extensionFile)'')
      | Some opts \<Rightarrow>
          if opt_extensionFile opts = [] then returnP (opts, None, None)
          else bindP (ext_call (readVSIXPackage X (opt_extensionFile opts))) (\<lambda>(xm, m).
               returnP (opts, xm, Some m)))"

text \<open>Lines 211 to 215: the resolved version, stored in the context.\<close>

definition resolve_version ::
  "extension \<Rightarrow> xmlManifest option \<Rightarrow> manifest option \<Rightarrow> ('w, string) prog" where
  "resolve_version extension xm m =
     bindP (liftE (xml_version xm)) (\<lambda>xv.
     let v = js_or xv (case m of None \<Rightarrow> None | Some man \<Rightarrow> man_version man) in
     bindP (modify_ctx (\<lambda>c. c\<lparr>version := v\<rparr>)) (\<lambda>u.
     case v of
       None \<Rightarrow> throwP (new_Error (ext_id extension @ '': version is not resolved''))
     | Some ver \<Rightarrow>
         if ver = [] then throwP (new_Error (ext_id extension @ '': version is not resolved''))
         else returnP ver))"

definition semver_gt :: "'w externals \<Rightarrow> string \<Rightarrow> string \<Rightarrow> thrown + bool" where
  "semver_gt X a b = (case semver_compare X a b of Inl e \<Rightarrow> Inl e | Inr c \<Rightarrow> Inr (c > 0))"

definition semver_eq :: "'w externals \<Rightarrow> string \<Rightarrow> string \<Rightarrow> thrown + bool" where
  "semver_eq X a b = (case semver_compare X a b of Inl e \<Rightarrow> Inl e | Inr c \<Rightarrow> Inr (c = 0))"

definition out_of_date_message :: "string \<Rightarrow> string \<Rightarrow> string" where
  "out_of_date_message ov v =
     ''extensions.json is out-of-date: Open VSX version '' @ ov
       @ '' is already greater than specified version '' @ v"

text \<open>
  Lines 217 to 227. The result says whether the build goes on: \<open>False\<close> is the early
  \<open>return\<close> of the skip.
\<close>

definition version_gate :: "'w externals \<Rightarrow> string \<Rightarrow> ('w, bool) prog" where
  "version_gate X v =
     bindP get_ctx (\<lambda>c.
     case ovsxVersion c of
       None \<Rightarrow> returnP True
     | Some ov \<Rightarrow>
         if ov = [] then returnP True
         else
           bindP (liftE (semver_gt X ov v)) (\<lambda>greater.
           if greater then throwP (new_Error (out_of_date_message ov v))
           else
             bindP (liftE (semver_eq X ov v)) (\<lambda>equal.
             bindP get_env (\<lambda>e.
             if equal \<and> e ''FORCE'' \<noteq> Some ''true'' then
               bindP (console_write (ConsoleLog
                        (''[SKIPPED] Requested version '' @ v
                           @ '' is already published on Open VSX''))) (\<lambda>u.
               returnP False)
             else returnP True))))"

text \<open>Lines 230 to 236.\<close>

definition license_gate ::
  "'w externals \<Rightarrow> extension \<Rightarrow> string option \<Rightarrow> xmlManifest option \<Rightarrow> manifest option
     \<Rightarrow> ('w, unit) prog" where
  "license_gate X extension packagePath xm m =
     bindP (liftE (xml_license xm)) (\<lambda>xl.
     if truthy xl then returnP ()
     else
       case m of
         None \<Rightarrow> throwP (TypeError ''Cannot read properties of undefined (reading license)'')
       | Some man \<Rightarrow>
           if truthy (license man) then returnP ()
           else
             case packagePath of
               None \<Rightarrow> throwP (new_Error (ext_id extension @ '': license is missing''))
             | Some pp \<Rightarrow>
                 if pp = [] then throwP (new_Error (ext_id extension @ '': license is missing''))
                 else
                   bindP (ext_call (isLicenseOk X pp man)) (\<lambda>ok.
                   if ok then returnP ()
                   else throwP (new_Error (ext_id extension @ '': license is missing''))))"

text \<open>\<open>Promise.allSettled\<close> of one promise.\<close>

datatype 'a settled = Fulfilled 'a | Rejected thrown

definition allSettled :: "('w, 'a) prog \<Rightarrow> ('w, 'a settled) prog" where
  "allSettled m s =
     (case m s of (Inl e, s') \<Rightarrow> (Inr (Rejected e), s') | (Inr x, s') \<Rightarrow> (Inr (Fulfilled x), s'))"

text \<open>Lines 252 to 262: the loop that collects \<open>dependenciesNotOnOpenVsx\<close>.\<close>

primrec dependency_lookup ::
  "'w externals \<Rightarrow> string list \<Rightarrow> string list \<Rightarrow> string list \<Rightarrow> ('w, string list) prog" where
  "dependency_lookup X keys [] = (\<lambda>dependenciesNotOnOpenVsx. returnP dependenciesNotOnOpenVsx)"
| "dependency_lookup X keys (dependency # rest) = (\<lambda>dependenciesNotOnOpenVsx.
     bindP get_env (\<lambda>e.
     if truthy (e ''SKIP_PUBLISH'') \<and> truthy (find (\<lambda>key. key = dependency) keys)
     then dependency_lookup X keys rest dependenciesNotOnOpenVsx
     else
       bindP (allSettled (ext_call (getExtension X dependency))) (\<lambda>ovsxExtension.
       case ovsxExtension of
         Fulfilled None \<Rightarrow>
           dependency_lookup X keys rest (dependenciesNotOnOpenVsx @ [dependency])
       | other \<Rightarrow> dependency_lookup X keys rest dependenciesNotOnOpenVsx)))"

definition unpublishable_message :: "string \<Rightarrow> string list \<Rightarrow> string" where
  "unpublishable_message i deps =
     i @ '' is dependent on '' @ join '', '' deps @ '', which ''
       @ (if length deps = 1 then ''has'' else ''have'')
       @ '' to be published to Open VSX first by ''
       @ (if length deps = 1 then ''its author because of its license''
          else ''their authors because of their licenses'') @ ''.''"

definition not_on_open_vsx_message :: "string \<Rightarrow> string list \<Rightarrow> string" where
  "not_on_open_vsx_message i deps =
     i @ '' is dependent on '' @ join '', '' deps @ '', which ''
       @ (if length deps = 1 then ''has'' else ''have'')
       @ '' to be published to Open VSX first''"

text \<open>Lines 238 to 268.\<close>

definition dependency_gate :: "'w externals \<Rightarrow> extension \<Rightarrow> manifest option \<Rightarrow> ('w, unit) prog" where
  "dependency_gate X extension m =
     (case m of
        None \<Rightarrow>
          throwP (TypeError ''Cannot destructure property extensionDependencies of undefined'')
      | Some man \<Rightarrow>
          (case extensionDependencies man of
             None \<Rightarrow> returnP ()
           | Some deps \<Rightarrow>
               (let extensionDependenciesNotBuiltin = filter (\<lambda>d. \<not> isBuiltIn d) deps;
                    unpublishableDependencies =
                      filter (\<lambda>d. d \<in> set (cannotPublish X)) extensionDependenciesNotBuiltin
                in
                if length unpublishableDependencies > 0 then
                  throwP (new_Error
                    (unpublishable_message (ext_id extension) unpublishableDependencies))
                else
                  bindP (readFile ''./extensions.json'') (\<lambda>text.
                  bindP (liftE (catalogue_keys X text)) (\<lambda>keys.
                  bindP (dependency_lookup X keys extensionDependenciesNotBuiltin []) (\<lambda>missing.
                  if length missing > 0 then
                    throwP (new_Error (not_on_open_vsx_message (ext_id extension) missing))
                  else returnP ()))))))"

text \<open>Lines 270 to 280.\<close>

definition finalize :: "'w externals \<Rightarrow> extension \<Rightarrow> options \<Rightarrow> ('w, options) prog" where
  "finalize X extension opts =
     (if opt_extensionFile opts = [] then returnP opts
      else
        bindP (console_write (ConsoleInfo (''Copying file to '' @ artifactDirectory X))) (\<lambda>u.
        bindP get_ctx (\<lambda>c.
        let outputPath =
              path_join X [artifactDirectory X,
                ext_id extension
                  @ (if truthy (target c) then ''@'' @ nullish_or (target c) [] else [])
                  @ ''.vsix''] in
        bindP (copyFileSync (opt_extensionFile opts) outputPath) (\<lambda>u.
        returnP (opts\<lparr>opt_extensionFile := outputPath\<rparr>)))))"

subsection \<open>\<open>buildVersion\<close>\<close>

text \<open>
  Lines 64 to 215 of the \<open>try\<close> block: the prerequisites, the artifact, its manifests and
  the resolved version.
\<close>

definition resolve ::
  "'w externals \<Rightarrow> extension
     \<Rightarrow> ('w, string option \<times> options \<times> xmlManifest option \<times> manifest option \<times> string) prog" where
  "resolve X extension =
     bindP (ensureBuildPrerequisites X) (\<lambda>u.
     bindP (prepare X extension) (\<lambda>(packagePath, options_opt).
     bindP (read_manifests X options_opt) (\<lambda>(opts, xm, m).
     bindP (resolve_version extension xm m) (\<lambda>v.
     returnP (packagePath, opts, xm, m, v)))))"

text \<open>Lines 229 to 280: the gates after the version gate, and the copy of the artifact.\<close>

definition remaining_gates ::
  "'w externals \<Rightarrow> extension \<Rightarrow> string option \<Rightarrow> options \<Rightarrow> xmlManifest option
     \<Rightarrow> manifest option \<Rightarrow> ('w, options) prog" where
  "remaining_gates X extension packagePath opts xm m =
     bindP (license_gate X extension packagePath xm m) (\<lambda>u.
     bindP (dependency_gate X extension m) (\<lambda>u.
     finalize X extension opts))"

text \<open>The body of the \<open>try\<close> block, lines 64 to 280.\<close>

definition buildVersion_try :: "'w externals \<Rightarrow> extension \<Rightarrow> ('w, options option) prog" where
  "buildVersion_try X extension =
     bindP (resolve X extension) (\<lambda>(packagePath, opts, xm, m, v).
     bindP (version_gate X v) (\<lambda>proceed.
     if \<not> proceed then returnP None
     else
       bindP (remaining_gates X extension packagePath opts xm m) (\<lambda>final.
       returnP (Some final))))"

text \<open>The \<open>catch\<close> block, lines 281 to 291.\<close>

definition buildVersion_catch :: "extension \<Rightarrow> thrown \<Rightarrow> ('w, options option) prog" where
  "buildVersion_catch extension error =
     (if truthy_thrown error \<and> indexOf (String_of error) ''is already published.'' \<noteq> - 1 then
        bindP (console_write
                 (ConsoleLog ''Could not process extension -- assuming that it already exists'')) (\<lambda>u.
        bindP (console_write (LogThrown error)) (\<lambda>u.
        returnP None))
      else
        bindP get_ctx (\<lambda>c.
        bindP (console_write (Fail extension c)) (\<lambda>u.
        bindP (console_write (ErrorThrown error)) (\<lambda>u.
        bindP (set_exitCode 1) (\<lambda>u.
        returnP None)))))"

text \<open>The \<open>finally\<close> block, lines 292 to 297.\<close>

definition buildVersion_finally :: "'w externals \<Rightarrow> extension \<Rightarrow> ('w, unit) prog" where
  "buildVersion_finally X extension =
     (if truthy (pythonVersion extension)
      then run_exec X (''pyenv global '' @ defaultPythonVersion X) no_options
      else returnP ())"

text \<open>Lines 61 and 62: the two console lines before the \<open>try\<close> block.\<close>

definition announce :: "extension \<Rightarrow> ('w, unit) prog" where
  "announce extension =
     bindP get_ctx (\<lambda>c.
     bindP (console_write
              (Building (ext_id extension)
                 (if truthy (target c) then nullish_or (target c) [] else ''universal''))) (\<lambda>u.
     console_write (Processing extension c)))"

definition buildVersion :: "'w externals \<Rightarrow> extension \<Rightarrow> ('w, options option) prog" where
  "buildVersion X extension =
     bindP (announce extension) (\<lambda>u.
     tryFinally
       (tryCatch (buildVersion_try X extension) (buildVersion_catch extension))
       (buildVersion_finally X extension))"

subsection \<open>The exported function: one build for each target\<close>

definition push_options :: "options list \<Rightarrow> options option \<Rightarrow> options list" where
  "push_options allOptions r = (case r of None \<Rightarrow> allOptions | Some opts \<Rightarrow> allOptions @ [opts])"

text \<open>Lines 312 to 323: the loop over the entries of \<open>publishContext.files\<close>.\<close>

primrec build_files ::
  "'w externals \<Rightarrow> extension \<Rightarrow> (string \<times> string) list \<Rightarrow> options list
     \<Rightarrow> ('w, options list) prog" where
  "build_files X extension [] = (\<lambda>allOptions. returnP allOptions)"
| "build_files X extension (entry # rest) = (\<lambda>allOptions.
     if (case ext_target extension of
           None \<Rightarrow> True
         | Some ts \<Rightarrow> fst entry \<in> set (map fst ts))
     then
       bindP (modify_ctx (\<lambda>c. c\<lparr>ctx_file := Some (snd entry), target := Some (fst entry)\<rparr>)) (\<lambda>u.
       bindP (buildVersion X extension) (\<lambda>r.
       build_files X extension rest (push_options allOptions r)))
     else
       bindP (console_write
                (ConsoleLog (ext_id extension @ '': skipping, since target '' @ fst entry
                   @ '' is not included''))) (\<lambda>u.
       build_files X extension rest allOptions))"

text \<open>Lines 326 to 335: the loop over the entries of \<open>extension.target\<close>.\<close>

primrec build_targets ::
  "'w externals \<Rightarrow> extension \<Rightarrow> (string \<times> targetData) list \<Rightarrow> options list
     \<Rightarrow> ('w, options list) prog" where
  "build_targets X extension [] = (\<lambda>allOptions. returnP allOptions)"
| "build_targets X extension (entry # rest) = (\<lambda>allOptions.
     bindP (modify_ctx (\<lambda>c. c\<lparr>target := Some (fst entry)\<rparr>)) (\<lambda>u.
     bindP (case snd entry of
              TargetTrue \<Rightarrow> returnP ()
            | TargetObject e \<Rightarrow> modify_ctx (\<lambda>c. c\<lparr>environmentVariables := e\<rparr>)) (\<lambda>u.
     bindP (buildVersion X extension) (\<lambda>r.
     build_targets X extension rest (push_options allOptions r)))))"

definition buildExtension :: "'w externals \<Rightarrow> extension \<Rightarrow> ('w, string list) prog" where
  "buildExtension X extension =
     bindP (modify_ctx (\<lambda>c. c\<lparr>msLastUpdated := NewDate (msLastUpdated c),
                                  ovsxLastUpdated := NewDate (ovsxLastUpdated c)\<rparr>)) (\<lambda>u.
     bindP get_ctx (\<lambda>c.
     bindP (case files c of
              Some entries \<Rightarrow> build_files X extension entries []
            | None \<Rightarrow>
                (case ext_target extension of
                   Some ts \<Rightarrow> build_targets X extension ts []
                 | None \<Rightarrow>
                     bindP (buildVersion X extension) (\<lambda>r. returnP (push_options [] r)))) (\<lambda>allOptions.
     returnP (map opt_extensionFile (filter (\<lambda>opts. opt_extensionFile opts \<noteq> []) allOptions)))))"

section \<open>The publish script\<close>

text \<open>\<open>readZip\<close>: the entries whose name passes the filter, as a map from name to text.\<close>

definition readZip ::
  "'w externals \<Rightarrow> string \<Rightarrow> (string \<Rightarrow> bool) \<Rightarrow> ('w, string \<rightharpoonup> string) prog" where
  "readZip X packagePath flt =
     bindP (ext_call (zip_entries X packagePath)) (\<lambda>entries.
     returnP (map_of (rev (filter (\<lambda>entry. flt (fst entry)) entries))))"

definition readXmlManifest :: "'w externals \<Rightarrow> string \<Rightarrow> ('w, xmlManifest option) prog" where
  "readXmlManifest X vsixFile =
     (let fileName = ''extension.vsixmanifest'' in
      bindP (readZip X vsixFile (\<lambda>name. name = fileName)) (\<lambda>result.
      case result fileName of
        None \<Rightarrow> returnP None
      | Some rawFile \<Rightarrow> liftE (parse_xml X rawFile)))"

text \<open>
  \<open>xmlManifest?.PackageManifest?.Metadata[0]?.Identity[0]["$"]?.Publisher.toLowerCase()\<close>
  and the same for \<open>Id\<close>: \<open>undefined\<close> when the chain stops at \<open>?.\<close>, a type error when the
  attribute itself is missing.
\<close>

definition lowered_attribute ::
  "'w externals \<Rightarrow> (identity_attributes \<Rightarrow> string option) \<Rightarrow> xmlManifest option
     \<Rightarrow> thrown + string option" where
  "lowered_attribute X attr xm =
     (case xml_identity xm of
        Inl e \<Rightarrow> Inl e
      | Inr None \<Rightarrow> Inr None
      | Inr (Some a) \<Rightarrow>
          (case attr a of
             None \<Rightarrow> Inl (TypeError ''Cannot read properties of undefined (reading toLowerCase)'')
           | Some v \<Rightarrow> Inr (Some (toLowerCase X v))))"

text \<open>The attribute as the error message prints it.\<close>

definition printed_attribute ::
  "(identity_attributes \<Rightarrow> string option) \<Rightarrow> xmlManifest option \<Rightarrow> string" where
  "printed_attribute attr xm =
     (case xml_identity xm of
        Inr (Some a) \<Rightarrow> template (attr a)
      | other \<Rightarrow> ''undefined'')"

text \<open>\<open>extension.toLowerCase()\<close> for the second part of the id, which may be missing.\<close>

definition lowered_name :: "'w externals \<Rightarrow> string option \<Rightarrow> thrown + string" where
  "lowered_name X extension =
     (case extension of
        None \<Rightarrow> Inl (TypeError ''Cannot read properties of undefined (reading toLowerCase)'')
      | Some n \<Rightarrow> Inr (toLowerCase X n))"

text \<open>Lines 108 to 119: the namespace, the publication and its console line.\<close>

definition publish_artifact ::
  "'w externals \<Rightarrow> string \<Rightarrow> string \<Rightarrow> string option \<Rightarrow> string \<Rightarrow> ('w, unit) prog" where
  "publish_artifact X extensionId namespace extension vsixFile =
     (let registryUrl = ''https://'' @ registryHost X in
      bindP (tryCatch (ext_call (createNamespace X namespace registryUrl)) (\<lambda>error.
               bindP (console_write (ConsoleLog
                        ''Creating Open VSX namespace failed -- assuming that it already exists'')) (\<lambda>u.
               console_write (LogThrown error)))) (\<lambda>u.
      bindP (console_write (ConsoleInfo (''Publishing extension '' @ extensionId))) (\<lambda>u.
      bindP (ext_call (publish X vsixFile registryUrl)) (\<lambda>u.
      console_write (ConsoleLog (''Published '' @ vsixFile @ '' to '' @ registryUrl
        @ ''/extension/'' @ namespace @ ''/'' @ template extension))))))"

text \<open>Lines 90 to 120: the loop over the artifacts.\<close>

primrec publish_loop ::
  "'w externals \<Rightarrow> string \<Rightarrow> string \<Rightarrow> string option \<Rightarrow> string list \<Rightarrow> ('w, unit) prog" where
  "publish_loop X extensionId namespace extension [] = returnP ()"
| "publish_loop X extensionId namespace extension (vsixFile # rest) =
     bindP (readXmlManifest X vsixFile) (\<lambda>xmlManifest.
     bindP (liftE (lowered_attribute X Publisher xmlManifest)) (\<lambda>publisher.
     if publisher \<noteq> Some (toLowerCase X namespace) then
       bindP (console_write (ConsoleError
                (''Namespace name mismatch. Expected '' @ namespace @ '', but found ''
                   @ printed_attribute Publisher xmlManifest))) (\<lambda>u.
       publish_loop X extensionId namespace extension rest)
     else
       bindP (liftE (lowered_attribute X Id_attr xmlManifest)) (\<lambda>name.
       bindP (liftE (lowered_name X extension)) (\<lambda>expected.
       if name \<noteq> Some expected then
         bindP (console_write (ConsoleError
                  (''Extension name mismatch. Expected '' @ template extension @ '', but found ''
                     @ printed_attribute Id_attr xmlManifest))) (\<lambda>u.
         publish_loop X extensionId namespace extension rest)
       else
         bindP (publish_artifact X extensionId namespace extension vsixFile) (\<lambda>u.
         publish_loop X extensionId namespace extension rest)))))"

definition publishExtension :: "'w externals \<Rightarrow> string \<Rightarrow> string list \<Rightarrow> ('w, unit) prog" where
  "publishExtension X extensionId extensionFiles =
     (let namespace = nullish_or (at_index (split CHR ''.'' extensionId) 0) [];
          extension = at_index (split CHR ''.'' extensionId) 1 in
      bindP (console_write (ConsoleLog (''Attempting to publish '' @ extensionId @ '' to Open VSX''))) (\<lambda>u.
      bindP get_env (\<lambda>e.
      if \<not> truthy (e ''OVSX_PAT'') then
        throwP (new_Error (''The OVSX_PAT environment variable was not provided, which means the ''
          @ ''extension cannot be published. Provide it or set SKIP_PUBLISH to true to avoid ''
          @ ''seeing this.''))
      else publish_loop X extensionId namespace extension extensionFiles)))"

section \<open>The driver\<close>

text \<open>The callback that the driver hands to the catalogue script: build, then publish.\<close>

definition driver_callback :: "'w externals \<Rightarrow> extension \<Rightarrow> publishContext \<Rightarrow> ('w, unit) prog" where
  "driver_callback X extension publishContext s =
     bindP (buildExtension X extension) (\<lambda>extensionFiles.
     publishExtension X (ext_id extension) extensionFiles) (s\<lparr>ctx := publishContext\<rparr>)"

text \<open>Lines 138 and 139.\<close>

definition set_defaults :: "('w, unit) prog" where
  "set_defaults =
     bindP (env_default ''SKIP_PUBLISH'' ''true'') (\<lambda>u. env_default ''FORCE'' ''true'')"

text \<open>
  The driver, with the catalogue script \<open>scripts/publish-extensions\<close> as a parameter: it is
  given the callback and calls it for the extensions of the catalogue.
\<close>

definition driver ::
  "'w externals \<Rightarrow> ((extension \<Rightarrow> publishContext \<Rightarrow> ('w, unit) prog) \<Rightarrow> ('w, unit) prog)
     \<Rightarrow> ('w, unit) prog" where
  "driver X publishExtensionsScript =
     bindP set_defaults (\<lambda>u. publishExtensionsScript (driver_callback X))"

text \<open>
  Modelled from the spec: the catalogue script \<open>scripts/publish-extensions\<close>, which the
  driver requires and which is not among the sources. The spec (4.4) says that it iterates
  the extensions of the catalogue, runs the build and the publish gate for each, and that
  a failure for one extension does not prevent the processing of the next ones. The
  catalogue is the list of the extensions with their publish contexts.
\<close>

primrec publishExtensionsScript ::
  "(extension \<times> publishContext) list \<Rightarrow> (extension \<Rightarrow> publishContext \<Rightarrow> ('w, unit) prog)
     \<Rightarrow> ('w, unit) prog" where
  "publishExtensionsScript [] callback = returnP ()"
| "publishExtensionsScript (entry # rest) callback =
     bindP (tryCatch (callback (fst entry) (snd entry))
              (\<lambda>error. console_write (ErrorThrown error))) (\<lambda>u.
     publishExtensionsScript rest callback)"

section \<open>A small world to run the scripts in\<close>

text \<open>
  Versions of the plain form \<open>X.Y.Z\<close>, compared as \<open>semver\<close> compares them; any other text
  is an invalid version.
\<close>

fun parse_number :: "string \<Rightarrow> nat \<Rightarrow> nat option" where
  "parse_number [] acc = Some acc"
| "parse_number (c # cs) acc =
     (if 48 \<le> (of_char c :: nat) \<and> (of_char c :: nat) \<le> 57
      then parse_number cs (10 * acc + ((of_char c :: nat) - 48)) else None)"

definition parse_plain_version :: "string \<Rightarrow> (nat \<times> nat \<times> nat) option" where
  "parse_plain_version v =
     (case map (\<lambda>part. if part = [] then None else parse_number part 0) (split CHR ''.'' v) of
        [Some major, Some minor, Some patch] \<Rightarrow> Some (major, minor, patch)
      | other \<Rightarrow> None)"

definition plain_compare :: "string \<Rightarrow> string \<Rightarrow> thrown + int" where
  "plain_compare a b =
     (case (parse_plain_version a, parse_plain_version b) of
        (Some (a1, a2, a3), Some (b1, b2, b3)) \<Rightarrow>
          Inr (if a1 \<noteq> b1 then (if a1 < b1 then - 1 else 1)
               else if a2 \<noteq> b2 then (if a2 < b2 then - 1 else 1)
               else if a3 \<noteq> b3 then (if a3 < b3 then - 1 else 1)
               else 0)
      | other \<Rightarrow> Inl (TypeError ''Invalid Version''))"

text \<open>Lower case for texts of ASCII characters.\<close>

definition ascii_lower_char :: "char \<Rightarrow> char" where
  "ascii_lower_char c =
     (case map_of (zip ''ABCDEFGHIJKLMNOPQRSTUVWXYZ'' ''abcdefghijklmnopqrstuvwxyz'') c of
        None \<Rightarrow> c
      | Some lower \<Rightarrow> lower)"

definition ascii_lower :: "string \<Rightarrow> string" where
  "ascii_lower s = map ascii_lower_char s"

text \<open>Joining path segments with one slash between them.\<close>

fun plain_join :: "string list \<Rightarrow> string" where
  "plain_join [] = ''.''"
| "plain_join [p] = p"
| "plain_join (p # q # rest) =
     (if p \<noteq> [] \<and> last p = CHR ''/'' then p @ plain_join (q # rest)
      else p @ ''/'' @ plain_join (q # rest))"

text \<open>
  A world in which every command succeeds, packaging writes the artifact, every artifact
  has version \<open>1.0.0\<close> and the MIT license, and the registry knows no extension.
\<close>

definition plain_manifest :: manifest where
  "plain_manifest =
     \<lparr>man_version = Some ''1.0.0'', license = Some ''MIT'', extensionDependencies = None\<rparr>"

definition plain_world :: "'w externals" where
  "plain_world =
     \<lparr>artifactDirectory = ''/tmp/artifacts/'',
      defaultPythonVersion = ''3.8'',
      registryHost = ''open-vsx.org'',
      cannotPublish = [],
      exec = (\<lambda>command opts e outside. (Inr (), outside)),
      resolveExtension = (\<lambda>extension ms outside. (Inr (), outside)),
      findUp = (\<lambda>name dir outside. (Inr None, outside)),
      fast_glob = (\<lambda>pattern dir outside. (Inr [], outside)),
      createVSIX = (\<lambda>opts e outside.
        (Inr (), ((fst outside)(cv_packagePath opts \<mapsto> File ''vsix''), snd outside))),
      readVSIXPackage = (\<lambda>path outside. (Inr (None, plain_manifest), outside)),
      isLicenseOk = (\<lambda>path m outside. (Inr False, outside)),
      getExtension = (\<lambda>dependency outside. (Inr None, outside)),
      semver_compare = plain_compare,
      path_join = plain_join,
      package_json_migration = (\<lambda>text. Inr None),
      catalogue_keys = (\<lambda>text. Inr []),
      zip_entries = (\<lambda>path outside. (Inr [], outside)),
      parse_xml = (\<lambda>text. Inr None),
      toLowerCase = ascii_lower,
      createNamespace = (\<lambda>name url outside. (Inr (), outside)),
      publish = (\<lambda>path url outside. (Inr (), outside))\<rparr>"

definition plain_context :: publishContext where
  "plain_context =
     \<lparr>repo = None, ref = None, version = None, msVersion = None,
      msLastUpdated = RawDate None, ovsxVersion = None, ovsxLastUpdated = RawDate None,
      ctx_file = None, files = None, target = None, environmentVariables = None\<rparr>"

definition plain_extension :: extension where
  "plain_extension =
     \<lparr>ext_id = ''acme.tool'', location = None, custom = None, prepublish = None,
      extensionFile = None, pythonVersion = None, ext_target = None\<rparr>"

text \<open>A process whose artifact directory holds a file from an earlier build.\<close>

definition leftover_state :: "unit state" where
  "leftover_state =
     \<lparr>env = Map.empty,
      fs = [''/tmp/artifacts/'' \<mapsto> Dir, ''/tmp/artifacts/old.vsix'' \<mapsto> File ''old''],
      world = (), console = [], exitCode = None, ctx = plain_context\<rparr>"

text \<open>
  A process that holds a pre-built artifact of \<open>acme.tool\<close>, whose version \<open>1.0.0\<close> the
  registry already has; \<open>FORCE\<close> is set as given.
\<close>

definition published_state :: "string option \<Rightarrow> unit state" where
  "published_state force =
     \<lparr>env = (case force of None \<Rightarrow> Map.empty | Some f \<Rightarrow> [''FORCE'' \<mapsto> f]),
      fs = [''/tmp/artifacts/'' \<mapsto> Dir, ''/tmp/download/acme.tool.vsix'' \<mapsto> File ''vsix''],
      world = (), console = [], exitCode = None,
      ctx = plain_context\<lparr>ctx_file := Some ''/tmp/download/acme.tool.vsix'',
                            ovsxVersion := Some ''1.0.0''\<rparr>\<rparr>"

text \<open>
  Worlds whose artifact declares extension dependencies: one where a dependency is on the
  list of extensions that cannot be published, one where every registry lookup is rejected,
  and one where all dependencies may be published; and a process that has the catalogue
  file.
\<close>

definition closed_source_world :: "unit externals" where
  "closed_source_world =
     plain_world\<lparr>cannotPublish := [''ms.closed''],
       readVSIXPackage := (\<lambda>path outside.
         (Inr (None, plain_manifest\<lparr>extensionDependencies := Some [''ms.closed'', ''acme.lib'']\<rparr>),
          outside))\<rparr>"

definition registry_down_world :: "unit externals" where
  "registry_down_world =
     plain_world\<lparr>getExtension := (\<lambda>dependency outside.
         (Inl (ErrorObj ''Error'' ''connect ECONNREFUSED''), outside)),
       readVSIXPackage := (\<lambda>path outside.
         (Inr (None, plain_manifest\<lparr>extensionDependencies := Some [''acme.lib'']\<rparr>), outside))\<rparr>"

definition catalogue_state :: "unit state" where
  "catalogue_state =
     (published_state (Some ''true''))\<lparr>fs := (fs (published_state (Some ''true'')))
        (''./extensions.json'' \<mapsto> File ''{}'')\<rparr>"

definition dependent_world :: "unit externals" where
  "dependent_world =
     plain_world\<lparr>readVSIXPackage := (\<lambda>path outside.
         (Inr (None, plain_manifest\<lparr>extensionDependencies :=
                  Some [''vscode.git'', ''acme.lib'', ''acme.other'']\<rparr>), outside))\<rparr>"

text \<open>
  A world that records the published files. The archive \<open>/tmp/artifacts/other.vsix\<close> is
  from the publisher \<open>Evil\<close>, the archive \<open>/tmp/artifacts/anonymous.vsix\<close> has an identity
  element without the publisher attribute, and the archive \<open>/tmp/artifacts/bare.vsix\<close> has
  no XML manifest; every other archive is \<open>Tool\<close> from the publisher \<open>ACME\<close>.
\<close>

definition manifest_of :: "string option \<Rightarrow> string \<Rightarrow> xmlManifest" where
  "manifest_of publisher name =
     \<lparr>PackageManifest = Some \<lparr>Metadata = Some
        [\<lparr>Identity = Some [\<lparr>dollar = Some \<lparr>Id_attr = Some name, Version = Some ''1.0.0'',
                                               Publisher = publisher\<rparr>\<rparr>],
          License = None\<rparr>]\<rparr>\<rparr>"

definition recording_world :: "string list externals" where
  "recording_world =
     plain_world\<lparr>
       zip_entries := (\<lambda>path outside.
         (Inr (if path = ''/tmp/artifacts/bare.vsix'' then []
               else [(''extension.vsixmanifest'',
                      if path = ''/tmp/artifacts/other.vsix'' then ''evil''
                      else if path = ''/tmp/artifacts/anonymous.vsix'' then ''anonymous''
                      else ''acme'')]), outside)),
       parse_xml := (\<lambda>text.
         Inr (Some (if text = ''evil'' then manifest_of (Some ''Evil'') ''tool''
                    else if text = ''anonymous'' then manifest_of None ''tool''
                    else manifest_of (Some ''ACME'') ''Tool''))),
       publish := (\<lambda>path url outside. (Inr (), (fst outside, snd outside @ [path])))\<rparr>"

definition credential_state :: "string list state" where
  "credential_state =
     \<lparr>env = [''OVSX_PAT'' \<mapsto> ''secret''], fs = Map.empty, world = [], console = [],
      exitCode = None, ctx = plain_context\<rparr>"

text \<open>
  A machine without \<open>pyenv\<close>: every \<open>pyenv\<close> command fails. In the second world the
  artifact, moreover, has no license. The extension asks for a Python version and declares
  two targets, and is built from its repository.
\<close>

definition no_pyenv_world :: "'w externals" where
  "no_pyenv_world =
     plain_world\<lparr>exec := (\<lambda>command opts e outside.
       if startsWith command ''pyenv ''
       then (Inl (ErrorObj ''Error'' (''Command failed: '' @ command)), outside)
       else (Inr (), outside))\<rparr>"

definition unlicensed_world :: "'w externals" where
  "unlicensed_world =
     no_pyenv_world\<lparr>readVSIXPackage := (\<lambda>path outside.
       (Inr (None, plain_manifest\<lparr>license := None\<rparr>), outside))\<rparr>"

definition two_target_extension :: extension where
  "two_target_extension =
     plain_extension\<lparr>pythonVersion := Some ''3.11'',
       ext_target := Some [(''linux-x64'', TargetTrue), (''darwin-arm64'', TargetTrue)]\<rparr>"

definition source_state :: "unit state" where
  "source_state =
     \<lparr>env = Map.empty, fs = [''/tmp/artifacts/'' \<mapsto> Dir], world = (), console = [],
      exitCode = None,
      ctx = plain_context\<lparr>repo := Some ''/tmp/repository'', ref := Some ''v1.0.0''\<rparr>\<rparr>"

section \<open>Notions for stating and proving the results\<close>

text \<open>A computation preserves an observation of the state.\<close>

definition preserves :: "('w state \<Rightarrow> 'b) \<Rightarrow> ('w, 'a) prog \<Rightarrow> bool" where
  "preserves f m = (\<forall>s. f (snd (m s)) = f s)"

text \<open>The environment variables that the build itself assigns.\<close>

definition build_env_keys :: "string set" where
  "build_env_keys = {''EXTENSION_ID'', ''EXTENSION_PUBLISHER'', ''EXTENSION_NAME'', ''VERSION'',
     ''MS_VERSION'', ''OVSX_VERSION'', ''VSCE_TESTS''}"

text \<open>
  An observation that does not look at the file system, the outside world, the variables
  of \<open>build_env_keys\<close> or the resolved version in the context, and that a console line
  other than the announcement of a build does not change.
\<close>

definition framed :: "('w state \<Rightarrow> 'b) \<Rightarrow> bool" where
  "framed f = ((\<forall>s l. (\<forall>i t. l \<noteq> Building i t) \<longrightarrow> f (s\<lparr>console := console s @ [l]\<rparr>) = f s)
     \<and> (\<forall>s a. f (s\<lparr>fs := a\<rparr>) = f s)
     \<and> (\<forall>s b. f (s\<lparr>world := b\<rparr>) = f s)
     \<and> (\<forall>s k v. k \<in> build_env_keys \<longrightarrow> f (s\<lparr>env := (env s)(k \<mapsto> v)\<rparr>) = f s)
     \<and> (\<forall>s v. f (s\<lparr>ctx := (ctx s)\<lparr>version := v\<rparr>\<rparr>) = f s))"

text \<open>Observations that do not look at the console, at the context, at the exit code.\<close>

definition console_blind :: "('w state \<Rightarrow> 'b) \<Rightarrow> bool" where
  "console_blind f = (\<forall>s l. f (s\<lparr>console := l\<rparr>) = f s)"

definition context_blind :: "('w state \<Rightarrow> 'b) \<Rightarrow> bool" where
  "context_blind f = (\<forall>s c. f (s\<lparr>ctx := c\<rparr>) = f s)"

definition exit_blind :: "('w state \<Rightarrow> 'b) \<Rightarrow> bool" where
  "exit_blind f = (\<forall>s x. f (s\<lparr>exitCode := x\<rparr>) = f s)"

definition build_blind :: "('w state \<Rightarrow> 'b) \<Rightarrow> bool" where
  "build_blind f = (framed f \<and> console_blind f \<and> context_blind f \<and> exit_blind f)"

text \<open>The target as the announcement of a build prints it.\<close>

definition target_label :: "string option \<Rightarrow> string" where
  "target_label t = (if truthy t then nullish_or t [] else ''universal'')"

text \<open>The build attempts that the console shows: the extension id and the target of each.\<close>

fun build_attempts :: "log_entry list \<Rightarrow> (string \<times> string) list" where
  "build_attempts [] = []"
| "build_attempts (Building i t # entries) = (i, t) # build_attempts entries"
| "build_attempts (other # entries) = build_attempts entries"

text \<open>The needle occurs somewhere in the string.\<close>

fun occurs :: "string \<Rightarrow> string \<Rightarrow> bool" where
  "occurs [] needle = (needle = [])"
| "occurs (c # cs) needle = (startsWith (c # cs) needle \<or> occurs cs needle)"

section \<open>Evaluation rules\<close>

lemmas prog_defs =
  returnP_def throwP_def bindP_def liftE_def tryCatch_def tryFinally_def ext_call_def
  console_write_def env_assign_def env_default_def get_ctx_def get_env_def set_exitCode_def
  modify_ctx_def existsSync_def rmSync_def mkdirSync_def copyFileSync_def access_def
  readFile_def writeFile_def run_exec_def run_createVSIX_def allSettled_def

lemmas build_defs =
  ensureBuildPrerequisites_def no_options_def packagePath_of_def prepare_def read_manifests_def
  resolve_version_def resolve_def announce_def version_gate_def license_gate_def
  dependency_gate_def finalize_def remaining_gates_def buildVersion_try_def buildVersion_catch_def
  buildVersion_finally_def buildVersion_def semver_gt_def semver_eq_def
  truthy_def template_def js_or_def nullish_or_def new_Error_def TypeError_def
  xml_metadata0_def xml_identity_def xml_version_def xml_license_def Let_def

lemmas plain_defs =
  plain_world_def plain_manifest_def plain_context_def plain_extension_def plain_compare_def
  parse_plain_version_def

lemmas source_defs =
  runtime_pinning_def custom_build_def install_dependencies_def package_vsix_def
  standard_build_def build_from_source_def buildExtension_def push_options_def

section \<open>Frame lemmas\<close>


lemma preservesD: "preserves f m \<Longrightarrow> m s = (r, s') \<Longrightarrow> f s' = f s"
  unfolding preserves_def by (metis snd_conv)

lemma preserves_returnP: "preserves f (returnP x)"
  by (simp add: preserves_def returnP_def)

lemma preserves_throwP: "preserves f (throwP e)"
  by (simp add: preserves_def throwP_def)

lemma preserves_liftE: "preserves f (liftE r)"
  by (simp add: preserves_def liftE_def)

lemma preserves_get_ctx: "preserves f get_ctx"
  by (simp add: preserves_def get_ctx_def)

lemma preserves_get_env: "preserves f get_env"
  by (simp add: preserves_def get_env_def)

lemma preserves_existsSync: "preserves f (existsSync p)"
  by (simp add: preserves_def existsSync_def)

lemma preserves_access: "preserves f (access p)"
  by (simp add: preserves_def access_def)

lemma preserves_bindP:
  assumes "preserves f m" and "\<And>x. preserves f (g x)"
  shows "preserves f (bindP m g)"
  unfolding preserves_def
proof
  fix s
  show "f (snd (bindP m g s)) = f s"
  proof (cases "m s")
    case (Pair r s')
    have a: "f s' = f s" by (rule preservesD[OF assms(1) Pair])
    show ?thesis
    proof (cases r)
      case (Inl e)
      with Pair a show ?thesis by (simp add: bindP_def)
    next
      case (Inr x)
      from assms(2)[of x] have "f (snd (g x s')) = f s'" by (simp add: preserves_def)
      with Pair Inr a show ?thesis by (simp add: bindP_def)
    qed
  qed
qed

lemma preserves_tryCatch:
  assumes "preserves f m" and "\<And>e. preserves f (h e)"
  shows "preserves f (tryCatch m h)"
  unfolding preserves_def
proof
  fix s
  show "f (snd (tryCatch m h s)) = f s"
  proof (cases "m s")
    case (Pair r s')
    have a: "f s' = f s" by (rule preservesD[OF assms(1) Pair])
    show ?thesis
    proof (cases r)
      case (Inl e)
      from assms(2)[of e] have "f (snd (h e s')) = f s'" by (simp add: preserves_def)
      with Pair Inl a show ?thesis by (simp add: tryCatch_def)
    next
      case (Inr x)
      with Pair a show ?thesis by (simp add: tryCatch_def)
    qed
  qed
qed

lemma preserves_tryFinally:
  assumes "preserves f m" and "preserves f fin"
  shows "preserves f (tryFinally m fin)"
  unfolding preserves_def
proof
  fix s
  show "f (snd (tryFinally m fin s)) = f s"
  proof (cases "m s")
    case (Pair r s')
    have a: "f s' = f s" by (rule preservesD[OF assms(1) Pair])
    show ?thesis
    proof (cases "fin s'")
      case (Pair r2 s'')
      have "f s'' = f s'" by (rule preservesD[OF assms(2) Pair])
      with Pair \<open>m s = (r, s')\<close> a show ?thesis
        by (simp add: tryFinally_def split: sum.splits)
    qed
  qed
qed

lemma preserves_allSettled:
  assumes "preserves f m"
  shows "preserves f (allSettled m)"
  unfolding preserves_def
proof
  fix s
  show "f (snd (allSettled m s)) = f s"
  proof (cases "m s")
    case (Pair r s')
    have a: "f s' = f s" by (rule preservesD[OF assms(1) Pair])
    with Pair show ?thesis by (simp add: allSettled_def split: sum.splits)
  qed
qed

lemma preserves_if:
  "(c \<Longrightarrow> preserves f a) \<Longrightarrow> (\<not> c \<Longrightarrow> preserves f b) \<Longrightarrow> preserves f (if c then a else b)"
  by simp

lemma preserves_case_option:
  "preserves f a \<Longrightarrow> (\<And>x. preserves f (b x)) \<Longrightarrow> preserves f (case v of None \<Rightarrow> a | Some x \<Rightarrow> b x)"
  by (cases v) simp_all

lemma preserves_case_list:
  "preserves f a \<Longrightarrow> (\<And>x xs. preserves f (b x xs)) \<Longrightarrow> preserves f (case v of [] \<Rightarrow> a | x # xs \<Rightarrow> b x xs)"
  by (cases v) simp_all

lemma preserves_case_prod:
  "(\<And>a b. preserves f (g a b)) \<Longrightarrow> preserves f (case p of (a, b) \<Rightarrow> g a b)"
  by (cases p) simp

lemma preserves_case_targetData:
  "preserves f a \<Longrightarrow> (\<And>x. preserves f (b x)) \<Longrightarrow> preserves f (case v of TargetTrue \<Rightarrow> a | TargetObject x \<Rightarrow> b x)"
  by (cases v) simp_all

lemma preserves_case_settled:
  "(\<And>x. preserves f (a x)) \<Longrightarrow> (\<And>e. preserves f (b e)) \<Longrightarrow> preserves f (case v of Fulfilled x \<Rightarrow> a x | Rejected e \<Rightarrow> b e)"
  by (cases v) simp_all

lemma preserves_Let: "preserves f (g v) \<Longrightarrow> preserves f (Let v g)"
  by simp

lemmas preserves_struct =
  preserves_returnP preserves_throwP preserves_liftE preserves_get_ctx preserves_get_env
  preserves_existsSync preserves_access preserves_bindP preserves_tryCatch preserves_tryFinally
  preserves_allSettled preserves_if preserves_case_option preserves_case_list preserves_case_prod
  preserves_case_targetData preserves_case_settled preserves_Let

lemma framed_console_write:
  "framed f \<Longrightarrow> (\<And>i t. l \<noteq> Building i t) \<Longrightarrow> preserves f (console_write l)"
  by (simp add: framed_def preserves_def console_write_def)

lemma framed_ext_call: "framed f \<Longrightarrow> preserves f (ext_call e)"
  by (simp add: framed_def preserves_def ext_call_def split: prod.splits)

lemma framed_run_exec: "framed f \<Longrightarrow> preserves f (run_exec X c opts)"
  by (simp add: framed_def preserves_def run_exec_def ext_call_def split: prod.splits)

lemma framed_run_createVSIX: "framed f \<Longrightarrow> preserves f (run_createVSIX X opts)"
  by (simp add: framed_def preserves_def run_createVSIX_def ext_call_def split: prod.splits)

lemma framed_env_assign: "framed f \<Longrightarrow> k \<in> build_env_keys \<Longrightarrow> preserves f (env_assign k v)"
  by (simp add: framed_def preserves_def env_assign_def)

lemma framed_rmSync: "framed f \<Longrightarrow> preserves f (rmSync p)"
  by (simp add: framed_def preserves_def rmSync_def split: option.splits node.splits)

lemma framed_mkdirSync: "framed f \<Longrightarrow> preserves f (mkdirSync p)"
  by (simp add: framed_def preserves_def mkdirSync_def split: option.splits node.splits)

lemma framed_copyFileSync: "framed f \<Longrightarrow> preserves f (copyFileSync p q)"
  by (simp add: framed_def preserves_def copyFileSync_def split: option.splits node.splits)

lemma framed_readFile: "framed f \<Longrightarrow> preserves f (readFile p)"
  by (simp add: framed_def preserves_def readFile_def split: option.splits node.splits)

lemma framed_writeFile: "framed f \<Longrightarrow> preserves f (writeFile p c)"
  by (simp add: framed_def preserves_def writeFile_def split: option.splits node.splits)

lemma framed_set_version: "framed f \<Longrightarrow> preserves f (modify_ctx (\<lambda>c. c\<lparr>version := v\<rparr>))"
  by (simp add: framed_def preserves_def modify_ctx_def)

lemmas framed_prims =
  framed_console_write framed_ext_call framed_run_exec framed_run_createVSIX framed_env_assign
  framed_rmSync framed_mkdirSync framed_copyFileSync framed_readFile framed_writeFile
  framed_set_version

lemma framed_ensureBuildPrerequisites: "framed f \<Longrightarrow> preserves f (ensureBuildPrerequisites X)"
  unfolding ensureBuildPrerequisites_def
  by (intro preserves_struct framed_prims) simp_all

lemma framed_runtime_pinning: "framed f \<Longrightarrow> preserves f (runtime_pinning X e r)"
  unfolding runtime_pinning_def
  by (intro preserves_struct framed_prims) simp_all

lemma framed_run_commands: "framed f \<Longrightarrow> preserves f (run_commands X r cs)"
  by (induction cs) (auto intro!: preserves_struct framed_prims)

lemma framed_custom_build: "framed f \<Longrightarrow> preserves f (custom_build X e cs r t)"
  unfolding custom_build_def
  by (intro preserves_struct framed_prims framed_run_commands) simp_all

lemma framed_install_dependencies: "framed f \<Longrightarrow> preserves f (install_dependencies X y pp)"
  unfolding install_dependencies_def
  by (intro preserves_struct framed_prims) simp_all

lemma framed_package_vsix: "framed f \<Longrightarrow> preserves f (package_vsix X y r pp t)"
  unfolding package_vsix_def
  by (intro preserves_struct framed_prims) (simp_all add: build_env_keys_def)

lemma framed_standard_build: "framed f \<Longrightarrow> preserves f (standard_build X e r pp t)"
  unfolding standard_build_def
  by (intro preserves_struct framed_prims framed_install_dependencies framed_package_vsix) simp_all

lemma framed_build_from_source: "framed f \<Longrightarrow> preserves f (build_from_source X e r rf pp)"
  unfolding build_from_source_def
  by (intro preserves_struct framed_prims framed_runtime_pinning framed_custom_build
      framed_standard_build) (simp_all add: build_env_keys_def)

lemma framed_prepare: "framed f \<Longrightarrow> preserves f (prepare X e)"
  unfolding prepare_def
  by (intro preserves_struct framed_prims framed_build_from_source) simp_all

lemma framed_read_manifests: "framed f \<Longrightarrow> preserves f (read_manifests X oo)"
  unfolding read_manifests_def
  by (intro preserves_struct framed_prims) simp_all

lemma framed_resolve_version: "framed f \<Longrightarrow> preserves f (resolve_version e xm m)"
  unfolding resolve_version_def
  by (intro preserves_struct framed_prims) simp_all

lemma framed_resolve: "framed f \<Longrightarrow> preserves f (resolve X e)"
  unfolding resolve_def
  by (intro preserves_struct framed_prims framed_ensureBuildPrerequisites framed_prepare
      framed_read_manifests framed_resolve_version) simp_all

lemma framed_announce: "framed f \<Longrightarrow> console_blind f \<Longrightarrow> preserves f (announce e)"
  by (simp add: preserves_def console_blind_def announce_def prog_defs)


lemma framed_FORCE: "framed (\<lambda>s. env s ''FORCE'')"
  by (simp add: framed_def build_env_keys_def)

lemma console_blind_env: "console_blind (\<lambda>s. env s k)"
  by (simp add: console_blind_def)

lemma console_blind_ovsxVersion: "console_blind (\<lambda>s. ovsxVersion (ctx s))"
  by (simp add: console_blind_def)

lemma console_blind_exitCode: "console_blind exitCode"
  by (simp add: console_blind_def)

lemma framed_ovsxVersion: "framed (\<lambda>s. ovsxVersion (ctx s))"
  by (simp add: framed_def)

lemma framed_exitCode: "framed exitCode"
  by (simp add: framed_def)

lemma framed_buildVersion_finally: "framed f \<Longrightarrow> preserves f (buildVersion_finally X e)"
  unfolding buildVersion_finally_def
  by (intro preserves_struct framed_prims) simp_all

lemma buildVersion_finally_console: "console (snd (buildVersion_finally X e s)) = console s"
  by (simp add: buildVersion_finally_def prog_defs split: prod.splits)

lemma announce_result: "fst (announce e s) = Inr ()"
  by (simp add: announce_def prog_defs)

lemma buildVersion_unfold:
  "buildVersion X e s =
     tryFinally (tryCatch (buildVersion_try X e) (buildVersion_catch e)) (buildVersion_finally X e)
       (snd (announce e s))"
  using announce_result[of e s]
  by (cases "announce e s") (simp add: buildVersion_def bindP_def)

lemma buildVersion_returns_None:
  assumes "tryCatch (buildVersion_try X e) (buildVersion_catch e) (snd (announce e s)) = (Inr None, s')"
  shows "\<forall>final. fst (buildVersion X e s) \<noteq> Inr (Some final)"
    and "console (snd (buildVersion X e s)) = console s'"
    and "exitCode (snd (buildVersion X e s)) = exitCode s'"
proof -
  obtain r s'' where fin: "buildVersion_finally X e s' = (r, s'')"
    by (cases "buildVersion_finally X e s'")
  have c: "console s'' = console s'"
    using buildVersion_finally_console[of X e s'] fin by simp
  have x: "exitCode s'' = exitCode s'"
    using preservesD[OF framed_buildVersion_finally[OF framed_exitCode] fin] .
  have b: "buildVersion X e s = (case r of Inl err \<Rightarrow> (Inl err, s'') | Inr u \<Rightarrow> (Inr None, s''))"
    using assms fin by (simp add: buildVersion_unfold tryFinally_def split: sum.splits)
  show "\<forall>final. fst (buildVersion X e s) \<noteq> Inr (Some final)"
    using b by (cases r) auto
  show "console (snd (buildVersion X e s)) = console s'"
    using b c by (cases r) auto
  show "exitCode (snd (buildVersion X e s)) = exitCode s'"
    using b x by (cases r) auto
qed

lemma reach_frame:
  assumes "resolve X e (snd (announce e s)) = (r, s1)" and "framed f" and "console_blind f"
  shows "f s1 = f s"
proof -
  have "f s1 = f (snd (announce e s))"
    using preservesD[OF framed_resolve[OF assms(2)] assms(1)] .
  also have "\<dots> = f s"
    using framed_announce[OF assms(2) assms(3), of e] by (simp add: preserves_def)
  finally show ?thesis .
qed



section \<open>Searching a string\<close>


lemma indexOf_from_miss: "0 \<le> i \<Longrightarrow> (indexOf_from s needle i = - 1) = (\<not> occurs s needle)"
  by (induction s arbitrary: i) auto

lemma indexOf_miss: "(indexOf s needle = - 1) = (\<not> occurs s needle)"
  by (simp add: indexOf_def indexOf_from_miss)

lemma occurs_skip_word:
  assumes "CHR '' '' \<notin> set x"
      and "\<not> startsWith rest (CHR '' '' # n)"
      and "\<not> startsWith rest (b # CHR '' '' # n)"
      and "\<not> occurs rest (a # b # CHR '' '' # n)"
  shows "\<not> occurs (x @ rest) (a # b # CHR '' '' # n)"
  using assms(1)
proof (induction x)
  case Nil
  then show ?case using assms(4) by simp
next
  case (Cons c cs)
  then have ih: "\<not> occurs (cs @ rest) (a # b # CHR '' '' # n)" by simp
  have "\<not> startsWith (cs @ rest) (b # CHR '' '' # n)"
  proof (cases cs)
    case Nil
    then show ?thesis using assms(3) by simp
  next
    case (Cons d ds)
    show ?thesis
    proof (cases ds)
      case Nil
      then show ?thesis using Cons assms(2) by simp
    next
      case (Cons e es)
      then have "e \<noteq> CHR '' ''" using Cons.prems \<open>cs = d # ds\<close> by auto
      then show ?thesis using Cons \<open>cs = d # ds\<close> by simp
    qed
  qed
  then show ?case using ih by simp
qed

lemma out_of_date_not_benign:
  assumes "CHR '' '' \<notin> set ov" and "CHR '' '' \<notin> set v"
  shows "indexOf (String_of (new_Error (out_of_date_message ov v))) ''is already published.'' = - 1"
proof -
  have v: "\<not> occurs (v @ []) ''is already published.''"
    by (rule occurs_skip_word[OF assms(2)]) simp_all
  have tail: "\<not> occurs ('' is already greater than specified version '' @ v) ''is already published.''"
    using v by simp
  have mid: "\<not> occurs (ov @ '' is already greater than specified version '' @ v)
               ''is already published.''"
    by (rule occurs_skip_word[OF assms(1) _ _ tail]) simp_all
  have "\<not> occurs (String_of (new_Error (out_of_date_message ov v))) ''is already published.''"
    using mid by (simp add: new_Error_def out_of_date_message_def)
  then show ?thesis by (simp add: indexOf_miss)
qed


section \<open>The catch block\<close>


lemma buildVersion_catch_result: "fst (buildVersion_catch e err s) = Inr None"
  by (simp add: buildVersion_catch_def prog_defs)

lemma buildVersion_catch_reports:
  "last (console (snd (buildVersion_catch e err s))) \<in> {LogThrown err, ErrorThrown err}"
  by (simp add: buildVersion_catch_def prog_defs)

lemma buildVersion_catch_benign:
  "truthy_thrown err \<Longrightarrow> indexOf (String_of err) ''is already published.'' \<noteq> - 1 \<Longrightarrow>
   buildVersion_catch e err s =
     (Inr None, s\<lparr>console := console s @
        [ConsoleLog ''Could not process extension -- assuming that it already exists'',
         LogThrown err]\<rparr>)"
  by (simp add: buildVersion_catch_def prog_defs)

lemma buildVersion_catch_fail:
  "indexOf (String_of err) ''is already published.'' = - 1 \<Longrightarrow>
   buildVersion_catch e err s =
     (Inr None, s\<lparr>console := console s @ [Fail e (ctx s), ErrorThrown err], exitCode := Some 1\<rparr>)"
  by (simp add: buildVersion_catch_def prog_defs)

lemma buildVersion_after_throw:
  assumes "buildVersion_try X e (snd (announce e s)) = (Inl err, s1)"
  shows "\<forall>final. fst (buildVersion X e s) \<noteq> Inr (Some final)"
    and "console (snd (buildVersion X e s)) = console (snd (buildVersion_catch e err s1))"
    and "exitCode (snd (buildVersion X e s)) = exitCode (snd (buildVersion_catch e err s1))"
proof -
  have c: "tryCatch (buildVersion_try X e) (buildVersion_catch e) (snd (announce e s))
             = (Inr None, snd (buildVersion_catch e err s1))"
    using assms buildVersion_catch_result[of e err s1]
    by (cases "buildVersion_catch e err s1") (simp add: tryCatch_def)
  show "\<forall>final. fst (buildVersion X e s) \<noteq> Inr (Some final)"
    using buildVersion_returns_None(1)[OF c] .
  show "console (snd (buildVersion X e s)) = console (snd (buildVersion_catch e err s1))"
    using buildVersion_returns_None(2)[OF c] .
  show "exitCode (snd (buildVersion X e s)) = exitCode (snd (buildVersion_catch e err s1))"
    using buildVersion_returns_None(3)[OF c] .
qed

section \<open>The dependency gate\<close>


lemma ext_call_env: "env (snd (ext_call f s)) = env s"
  by (simp add: ext_call_def split: prod.splits)

lemma allSettled_getExtension:
  assumes reg: "\<forall>d outside. fst (getExtension X d outside) = reg d"
  shows "\<exists>s'. allSettled (ext_call (getExtension X d)) s
            = (Inr (case reg d of Inl e \<Rightarrow> Rejected e | Inr x \<Rightarrow> Fulfilled x), s')
          \<and> env s' = env s"
proof -
  obtain r a b where g: "getExtension X d (fs s, world s) = (r, (a, b))"
    by (cases "getExtension X d (fs s, world s)") auto
  have r: "r = reg d" using reg g by (metis fst_conv)
  have "allSettled (ext_call (getExtension X d)) s
          = (Inr (case r of Inl e \<Rightarrow> Rejected e | Inr x \<Rightarrow> Fulfilled x), s\<lparr>fs := a, world := b\<rparr>)"
    using g by (cases r) (simp_all add: allSettled_def ext_call_def)
  then show ?thesis unfolding r by (intro exI[of _ "s\<lparr>fs := a, world := b\<rparr>"]) simp
qed

lemma dependency_lookup_step:
  "dependency_lookup X keys (d # rest) found s =
     (if truthy (env s ''SKIP_PUBLISH'') \<and> truthy (find (\<lambda>key. key = d) keys)
      then dependency_lookup X keys rest found s
      else bindP (allSettled (ext_call (getExtension X d))) (\<lambda>ovsxExtension.
             case ovsxExtension of
               Fulfilled None \<Rightarrow> dependency_lookup X keys rest (found @ [d])
             | Fulfilled (Some y) \<Rightarrow> dependency_lookup X keys rest found
             | Rejected e \<Rightarrow> dependency_lookup X keys rest found) s)"
  by (simp add: bindP_def get_env_def)

lemma dependency_lookup_result:
  assumes reg: "\<forall>d outside. fst (getExtension X d outside) = reg d"
  shows "fst (dependency_lookup X keys deps found s)
           = Inr (found @ filter (\<lambda>d. \<not> (truthy (env s ''SKIP_PUBLISH'')
                                       \<and> truthy (find (\<lambda>key. key = d) keys))
                                  \<and> reg d = Inr None) deps)"
proof (induction deps arbitrary: found s)
  case Nil
  show ?case by (simp add: returnP_def)
next
  case (Cons d rest)
  let ?skip = "\<lambda>d. truthy (env s ''SKIP_PUBLISH'') \<and> truthy (find (\<lambda>key. key = d) keys)"
  show ?case
  proof (cases "?skip d")
    case True
    have "dependency_lookup X keys (d # rest) found s = dependency_lookup X keys rest found s"
      unfolding dependency_lookup_step using True by (rule if_P)
    then show ?thesis using Cons.IH[of found s] True by simp
  next
    case False
    obtain s' where settled: "allSettled (ext_call (getExtension X d)) s
            = (Inr (case reg d of Inl e \<Rightarrow> Rejected e | Inr x \<Rightarrow> Fulfilled x), s')"
      and e: "env s' = env s"
      using allSettled_getExtension[OF reg, of d s] by blast
    have step: "dependency_lookup X keys (d # rest) found s
        = dependency_lookup X keys rest (if reg d = Inr None then found @ [d] else found) s'"
      unfolding dependency_lookup_step if_not_P[OF False]
      using settled by (cases "reg d") (auto simp add: bindP_def split: option.splits)
    show ?thesis
      unfolding step
      using Cons.IH[of "if reg d = Inr None then found @ [d] else found" s'] False e
      by simp
  qed
qed

lemma dependency_gate_result:
  assumes deps: "extensionDependencies man = Some deps"
      and publishable: "filter (\<lambda>d. d \<in> set (cannotPublish X)) (filter (\<lambda>d. \<not> isBuiltIn d) deps) = []"
      and catalogue: "fs s ''./extensions.json'' = Some (File text)" "catalogue_keys X text = Inr keys"
      and reg: "\<forall>d outside. fst (getExtension X d outside) = reg d"
  shows "fst (dependency_gate X extension (Some man) s)
           = (let missing = filter (\<lambda>d. \<not> (truthy (env s ''SKIP_PUBLISH'')
                                       \<and> truthy (find (\<lambda>key. key = d) keys))
                                  \<and> reg d = Inr None) (filter (\<lambda>d. \<not> isBuiltIn d) deps)
              in if missing = [] then Inr ()
                 else Inl (new_Error (not_on_open_vsx_message (ext_id extension) missing)))"
proof -
  obtain r s' where look: "dependency_lookup X keys (filter (\<lambda>d. \<not> isBuiltIn d) deps) [] s = (r, s')"
    by (cases "dependency_lookup X keys (filter (\<lambda>d. \<not> isBuiltIn d) deps) [] s")
  have r: "r = Inr (filter (\<lambda>d. \<not> (truthy (env s ''SKIP_PUBLISH'')
                                       \<and> truthy (find (\<lambda>key. key = d) keys))
                                  \<and> reg d = Inr None) (filter (\<lambda>d. \<not> isBuiltIn d) deps))"
    using dependency_lookup_result[OF reg, of keys "filter (\<lambda>d. \<not> isBuiltIn d) deps" "[]" s] look
    by simp
  show ?thesis
    using deps publishable catalogue look r
    by (simp add: dependency_gate_def Let_def readFile_def bindP_def liftE_def throwP_def
        returnP_def)
qed


lemma framed_SKIP_PUBLISH: "framed (\<lambda>s. env s ''SKIP_PUBLISH'')"
  by (simp add: framed_def build_env_keys_def)

lemma framed_version_gate: "framed f \<Longrightarrow> preserves f (version_gate X v)"
  unfolding version_gate_def
  by (intro preserves_struct framed_prims) simp_all

lemma framed_license_gate: "framed f \<Longrightarrow> preserves f (license_gate X e pp xm m)"
  unfolding license_gate_def
  by (intro preserves_struct framed_prims) simp_all

lemma buildVersion_try_dependency_error:
  assumes reach: "resolve X extension (snd (announce extension s))
                    = (Inr (packagePath, opts, xm, m, v), s1)"
      and pass: "version_gate X v s1 = (Inr True, s2)"
      and licensed: "license_gate X extension packagePath xm m s2 = (Inr (), s3)"
      and failed: "fst (dependency_gate X extension m s3) = Inl err"
  shows "\<exists>s4. buildVersion_try X extension (snd (announce extension s)) = (Inl err, s4)"
proof -
  obtain s4 where "dependency_gate X extension m s3 = (Inl err, s4)"
    using failed by (cases "dependency_gate X extension m s3") auto
  then have "buildVersion_try X extension (snd (announce extension s)) = (Inl err, s4)"
    using reach pass licensed
    by (simp add: buildVersion_try_def remaining_gates_def bindP_def)
  then show ?thesis by blast
qed

section \<open>The loop over the artifacts\<close>

lemma publish_loop_step:
  assumes manifest: "readXmlManifest X vsixFile s = (Inr xm, s1)"
  shows "publish_loop X extensionId namespace name (vsixFile # rest) s =
     bindP (liftE (lowered_attribute X Publisher xm)) (\<lambda>publisher.
     if publisher \<noteq> Some (toLowerCase X namespace) then
       bindP (console_write (ConsoleError
                (''Namespace name mismatch. Expected '' @ namespace @ '', but found ''
                   @ printed_attribute Publisher xm))) (\<lambda>u.
       publish_loop X extensionId namespace name rest)
     else
       bindP (liftE (lowered_attribute X Id_attr xm)) (\<lambda>found.
       bindP (liftE (lowered_name X name)) (\<lambda>expected.
       if found \<noteq> Some expected then
         bindP (console_write (ConsoleError
                  (''Extension name mismatch. Expected '' @ template name @ '', but found ''
                     @ printed_attribute Id_attr xm))) (\<lambda>u.
         publish_loop X extensionId namespace name rest)
       else
         bindP (publish_artifact X extensionId namespace name vsixFile) (\<lambda>u.
         publish_loop X extensionId namespace name rest)))) s1"
  using manifest by (simp add: bindP_def)

lemma publishExtension_loop:
  "truthy (env s ''OVSX_PAT'') \<Longrightarrow>
   publishExtension X extensionId vsixFiles s
     = publish_loop X extensionId (nullish_or (at_index (split CHR ''.'' extensionId) 0) [])
         (at_index (split CHR ''.'' extensionId) 1) vsixFiles
         (s\<lparr>console := console s @
            [ConsoleLog (''Attempting to publish '' @ extensionId @ '' to Open VSX'')]\<rparr>)"
  by (simp add: publishExtension_def Let_def bindP_def console_write_def get_env_def)

lemmas publish_defs =
  readZip_def readXmlManifest_def lowered_attribute_def printed_attribute_def lowered_name_def
  publish_artifact_def publishExtension_def ascii_lower_def ascii_lower_char_def

text \<open>
  The loop at an artifact whose XML manifest has been read. Without an identity, or with a
  publisher or a name that differs in lower case, the loop writes the mismatch and goes on
  with the remaining artifacts in a state that differs by that line only; when both agree
  the artifact is published. When the identity lacks the publisher, or the publishers agree
  and the identity lacks the name or the requested id has no second part, the loop throws
  a type error in the state it was in.
\<close>

lemma publish_loop_decides:
  assumes manifest: "readXmlManifest X vsixFile s = (Inr xm, s1)"
  shows "(xml_identity xm = Inr None \<longrightarrow>
            publish_loop X extensionId namespace name (vsixFile # rest) s
              = publish_loop X extensionId namespace name rest
                  (s1\<lparr>console := console s1 @ [ConsoleError
                     (''Namespace name mismatch. Expected '' @ namespace
                        @ '', but found undefined'')]\<rparr>))
       \<and> (\<forall>a p. xml_identity xm = Inr (Some a) \<and> Publisher a = Some p
              \<and> toLowerCase X p \<noteq> toLowerCase X namespace \<longrightarrow>
            publish_loop X extensionId namespace name (vsixFile # rest) s
              = publish_loop X extensionId namespace name rest
                  (s1\<lparr>console := console s1 @ [ConsoleError
                     (''Namespace name mismatch. Expected '' @ namespace
                        @ '', but found '' @ p)]\<rparr>))
       \<and> (\<forall>a p i n. xml_identity xm = Inr (Some a) \<and> Publisher a = Some p
              \<and> toLowerCase X p = toLowerCase X namespace
              \<and> Id_attr a = Some i \<and> name = Some n \<and> toLowerCase X i \<noteq> toLowerCase X n \<longrightarrow>
            publish_loop X extensionId namespace name (vsixFile # rest) s
              = publish_loop X extensionId namespace name rest
                  (s1\<lparr>console := console s1 @ [ConsoleError
                     (''Extension name mismatch. Expected '' @ n @ '', but found '' @ i)]\<rparr>))
       \<and> (\<forall>a p i n. xml_identity xm = Inr (Some a) \<and> Publisher a = Some p
              \<and> toLowerCase X p = toLowerCase X namespace
              \<and> Id_attr a = Some i \<and> name = Some n \<and> toLowerCase X i = toLowerCase X n \<longrightarrow>
            publish_loop X extensionId namespace name (vsixFile # rest) s
              = bindP (publish_artifact X extensionId namespace name vsixFile)
                  (\<lambda>u. publish_loop X extensionId namespace name rest) s1)
       \<and> (truthy (env s0 ''OVSX_PAT'') \<longrightarrow>
            publishExtension X extensionId vsixFiles s0
              = publish_loop X extensionId
                  (nullish_or (at_index (split CHR ''.'' extensionId) 0) [])
                  (at_index (split CHR ''.'' extensionId) 1) vsixFiles
                  (s0\<lparr>console := console s0 @
                     [ConsoleLog (''Attempting to publish '' @ extensionId
                        @ '' to Open VSX'')]\<rparr>))"
  unfolding publish_loop_step[OF manifest]
  by (auto simp add: lowered_attribute_def printed_attribute_def lowered_name_def template_def
      bindP_def liftE_def console_write_def publishExtension_loop)

lemma publish_loop_throws:
  assumes manifest: "readXmlManifest X vsixFile s = (Inr xm, s1)"
  shows "(\<forall>a. xml_identity xm = Inr (Some a) \<and> Publisher a = None \<longrightarrow>
            publish_loop X extensionId namespace name (vsixFile # rest) s
              = (Inl (TypeError ''Cannot read properties of undefined (reading toLowerCase)''), s1))
       \<and> (\<forall>a p. xml_identity xm = Inr (Some a) \<and> Publisher a = Some p
              \<and> toLowerCase X p = toLowerCase X namespace
              \<and> (Id_attr a = None \<or> name = None) \<longrightarrow>
            publish_loop X extensionId namespace name (vsixFile # rest) s
              = (Inl (TypeError ''Cannot read properties of undefined (reading toLowerCase)''), s1))"
  unfolding publish_loop_step[OF manifest]
  by (auto simp add: lowered_attribute_def lowered_name_def bindP_def liftE_def
      split: option.splits)

lemma publish_loop_decides_example:
  "publish_loop recording_world ''acme.tool'' ''acme'' (Some ''tool'')
     [''/tmp/artifacts/other.vsix'', ''/tmp/artifacts/acme.tool.vsix''] credential_state
   = (Inr (), credential_state\<lparr>world := [''/tmp/artifacts/acme.tool.vsix''],
       console := [
         ConsoleError ''Namespace name mismatch. Expected acme, but found Evil'',
         ConsoleInfo ''Publishing extension acme.tool'',
         ConsoleLog (''Published /tmp/artifacts/acme.tool.vsix to ''
           @ ''https://open-vsx.org/extension/acme/tool'')]\<rparr>)"
proof -
  let ?s1 = "credential_state\<lparr>console := console credential_state @ [ConsoleError
                     (''Namespace name mismatch. Expected '' @ ''acme''
                        @ '', but found '' @ ''Evil'')]\<rparr>"
  have other: "readXmlManifest recording_world ''/tmp/artifacts/other.vsix'' credential_state
                 = (Inr (Some (manifest_of (Some ''Evil'') ''tool'')), credential_state)"
    by (simp add: publish_defs prog_defs recording_world_def plain_defs Let_def credential_state_def)
  have mismatch: "xml_identity (Some (manifest_of (Some ''Evil'') ''tool''))
          = Inr (Some \<lparr>Id_attr = Some ''tool'', Version = Some ''1.0.0'',
                         Publisher = Some ''Evil''\<rparr>)
        \<and> Publisher \<lparr>Id_attr = Some ''tool'', Version = Some ''1.0.0'',
                       Publisher = Some ''Evil''\<rparr> = Some ''Evil''
        \<and> toLowerCase recording_world ''Evil'' \<noteq> toLowerCase recording_world ''acme''"
    by (simp add: manifest_of_def build_defs publish_defs recording_world_def plain_defs)
  have skip: "publish_loop recording_world ''acme.tool'' ''acme'' (Some ''tool'')
     [''/tmp/artifacts/other.vsix'', ''/tmp/artifacts/acme.tool.vsix''] credential_state
     = publish_loop recording_world ''acme.tool'' ''acme'' (Some ''tool'')
         [''/tmp/artifacts/acme.tool.vsix''] ?s1"
    by (rule publish_loop_decides[OF other, THEN conjunct2, THEN conjunct1,
          rule_format, OF mismatch])
  have good: "readXmlManifest recording_world ''/tmp/artifacts/acme.tool.vsix'' ?s1
                 = (Inr (Some (manifest_of (Some ''ACME'') ''Tool'')), ?s1)"
    by (simp add: publish_defs prog_defs recording_world_def plain_defs Let_def credential_state_def)
  have match: "xml_identity (Some (manifest_of (Some ''ACME'') ''Tool''))
          = Inr (Some \<lparr>Id_attr = Some ''Tool'', Version = Some ''1.0.0'',
                         Publisher = Some ''ACME''\<rparr>)
        \<and> Publisher \<lparr>Id_attr = Some ''Tool'', Version = Some ''1.0.0'',
                       Publisher = Some ''ACME''\<rparr> = Some ''ACME''
        \<and> toLowerCase recording_world ''ACME'' = toLowerCase recording_world ''acme''
        \<and> Id_attr \<lparr>Id_attr = Some ''Tool'', Version = Some ''1.0.0'',
                       Publisher = Some ''ACME''\<rparr> = Some ''Tool''
        \<and> Some ''tool'' = Some ''tool''
        \<and> toLowerCase recording_world ''Tool'' = toLowerCase recording_world ''tool''"
    by (simp add: manifest_of_def build_defs publish_defs recording_world_def plain_defs)
  have published: "publish_loop recording_world ''acme.tool'' ''acme'' (Some ''tool'')
         [''/tmp/artifacts/acme.tool.vsix''] ?s1
     = bindP (publish_artifact recording_world ''acme.tool'' ''acme'' (Some ''tool'')
                ''/tmp/artifacts/acme.tool.vsix'')
         (\<lambda>u. publish_loop recording_world ''acme.tool'' ''acme'' (Some ''tool'') []) ?s1"
    by (rule publish_loop_decides[OF good, THEN conjunct2, THEN conjunct2,
          THEN conjunct2, THEN conjunct1, rule_format, OF match])
  show ?thesis
    unfolding skip published
    by (simp add: publish_defs build_defs prog_defs plain_defs recording_world_def
        credential_state_def)
qed

section \<open>The environment during a run\<close>

lemma build_blind_framed: "build_blind f \<Longrightarrow> framed f"
  by (simp add: build_blind_def)

lemma build_blind_console: "build_blind f \<Longrightarrow> console_blind f"
  by (simp add: build_blind_def)

lemma build_blind_context: "build_blind f \<Longrightarrow> context_blind f"
  by (simp add: build_blind_def)

lemma build_blind_exit: "build_blind f \<Longrightarrow> exit_blind f"
  by (simp add: build_blind_def)

lemmas build_blind_parts =
  build_blind_framed build_blind_console build_blind_context build_blind_exit

lemma blind_modify_ctx: "context_blind f \<Longrightarrow> preserves f (modify_ctx g)"
  by (simp add: context_blind_def preserves_def modify_ctx_def)

lemma blind_set_exitCode: "exit_blind f \<Longrightarrow> preserves f (set_exitCode n)"
  by (simp add: exit_blind_def preserves_def set_exitCode_def)

lemma framed_dependency_lookup: "framed f \<Longrightarrow> preserves f (dependency_lookup X keys deps found)"
  by (induction deps arbitrary: found) (auto intro!: preserves_struct framed_prims)

lemma framed_dependency_gate: "framed f \<Longrightarrow> preserves f (dependency_gate X e m)"
  unfolding dependency_gate_def
  by (intro preserves_struct framed_prims framed_dependency_lookup) simp_all

lemma framed_finalize: "framed f \<Longrightarrow> preserves f (finalize X e opts)"
  unfolding finalize_def
  by (intro preserves_struct framed_prims) simp_all

lemma framed_remaining_gates: "framed f \<Longrightarrow> preserves f (remaining_gates X e pp opts xm m)"
  unfolding remaining_gates_def
  by (intro preserves_struct framed_license_gate framed_dependency_gate framed_finalize) simp_all

lemma framed_buildVersion_try: "framed f \<Longrightarrow> preserves f (buildVersion_try X e)"
  unfolding buildVersion_try_def
  by (intro preserves_struct framed_resolve framed_version_gate framed_remaining_gates) simp_all

lemma blind_buildVersion_catch:
  "framed f \<Longrightarrow> exit_blind f \<Longrightarrow> preserves f (buildVersion_catch e err)"
  unfolding buildVersion_catch_def
  by (intro preserves_struct framed_prims blind_set_exitCode) simp_all

lemma blind_buildVersion: "build_blind f \<Longrightarrow> preserves f (buildVersion X e)"
  unfolding buildVersion_def
  by (intro preserves_struct framed_announce framed_buildVersion_try blind_buildVersion_catch
      framed_buildVersion_finally build_blind_parts) simp_all

lemma blind_build_files: "build_blind f \<Longrightarrow> preserves f (build_files X e entries acc)"
  by (induction entries arbitrary: acc)
    (auto intro!: preserves_struct framed_prims blind_modify_ctx blind_buildVersion
      build_blind_parts)

lemma blind_build_targets: "build_blind f \<Longrightarrow> preserves f (build_targets X e entries acc)"
  by (induction entries arbitrary: acc)
    (auto intro!: preserves_struct framed_prims blind_modify_ctx blind_buildVersion
      build_blind_parts)

lemma blind_buildExtension: "build_blind f \<Longrightarrow> preserves f (buildExtension X e)"
  unfolding buildExtension_def
  by (intro preserves_struct blind_modify_ctx blind_buildVersion blind_build_files
      blind_build_targets build_blind_parts) simp_all

lemma framed_readXmlManifest: "framed f \<Longrightarrow> preserves f (readXmlManifest X p)"
  unfolding readXmlManifest_def readZip_def
  by (intro preserves_struct framed_prims) simp_all

lemma framed_publish_artifact: "framed f \<Longrightarrow> preserves f (publish_artifact X i n e p)"
  unfolding publish_artifact_def
  by (intro preserves_struct framed_prims) simp_all

lemma framed_publish_loop: "framed f \<Longrightarrow> preserves f (publish_loop X i n e ps)"
  by (induction ps)
    (auto intro!: preserves_struct framed_prims framed_readXmlManifest framed_publish_artifact)

lemma framed_publishExtension: "framed f \<Longrightarrow> preserves f (publishExtension X i ps)"
  unfolding publishExtension_def
  by (intro preserves_struct framed_prims framed_publish_loop) simp_all

lemma blind_driver_callback: 
  assumes "build_blind f"
  shows "preserves f (driver_callback X e c)"
proof -
  have p: "preserves f (bindP (buildExtension X e) (\<lambda>extensionFiles.
             publishExtension X (ext_id e) extensionFiles))"
    by (intro preserves_struct blind_buildExtension framed_publishExtension
        build_blind_framed assms)
  have "f (s\<lparr>ctx := c\<rparr>) = f s" for s
    using assms by (simp add: build_blind_def context_blind_def)
  then show ?thesis
    using p by (simp add: preserves_def driver_callback_def)
qed

lemma blind_publishExtensionsScript:
  "build_blind f \<Longrightarrow> preserves f (publishExtensionsScript entries (driver_callback X))"
  by (induction entries)
    (auto intro!: preserves_struct framed_prims blind_driver_callback build_blind_framed)

lemma blind_defaults: "build_blind (\<lambda>s. (env s ''FORCE'', env s ''SKIP_PUBLISH''))"
  by (simp add: build_blind_def framed_def console_blind_def context_blind_def exit_blind_def
      build_env_keys_def)

lemma set_defaults_result:
  "set_defaults s = (Inr (), s\<lparr>env := (env s)
      (''SKIP_PUBLISH'' \<mapsto> (case env s ''SKIP_PUBLISH'' of None \<Rightarrow> ''true'' | Some v \<Rightarrow> v),
       ''FORCE'' \<mapsto> (case env s ''FORCE'' of None \<Rightarrow> ''true'' | Some v \<Rightarrow> v))\<rparr>)"
  by (cases "env s ''SKIP_PUBLISH''"; cases "env s ''FORCE''")
     (auto simp add: set_defaults_def env_default_def bindP_def fun_upd_idem_iff
       intro!: state.equality)

lemma driver_unfold: "driver X script s = script (driver_callback X) (snd (set_defaults s))"
  by (simp add: driver_def bindP_def set_defaults_result)

lemma publishExtensionsScript_returns: "fst (publishExtensionsScript entries callback s) = Inr ()"
proof (induction entries arbitrary: s)
  case Nil
  show ?case by (simp add: returnP_def)
next
  case (Cons entry rest)
  obtain r s' where c: "callback (fst entry) (snd entry) s = (r, s')"
    by (cases "callback (fst entry) (snd entry) s")
  show ?case
    using c Cons.IH
    by (cases r) (simp_all add: bindP_def tryCatch_def console_write_def)
qed

lemma publishExtensionsScript_append:
  "publishExtensionsScript (processed @ remaining) callback s
     = publishExtensionsScript remaining callback
         (snd (publishExtensionsScript processed callback s))"
proof (induction processed arbitrary: s)
  case Nil
  show ?case by (simp add: returnP_def)
next
  case (Cons entry rest)
  obtain r s' where c: "callback (fst entry) (snd entry) s = (r, s')"
    by (cases "callback (fst entry) (snd entry) s")
  show ?case
    using c Cons.IH
    by (cases r) (simp_all add: bindP_def tryCatch_def console_write_def)
qed

lemma find_key: "d \<in> set keys \<Longrightarrow> find (\<lambda>key. key = d) keys = Some d"
  by (induction keys) auto

section \<open>The build attempts of one extension\<close>

text \<open>
  When the extension asks for no Python version, the \<open>finally\<close> block does nothing:
  \<open>buildVersion\<close> returns whatever happens in its \<open>try\<close> block, and the exported function
  makes one attempt for each declared target, in the order of declaration, or one attempt
  for the target of the context when no target is declared.
\<close>

lemma build_attempts_append:
  "build_attempts (xs @ ys) = build_attempts xs @ build_attempts ys"
  by (induction xs rule: build_attempts.induct) simp_all

lemma build_attempts_other:
  assumes "\<And>i t. l \<noteq> Building i t"
  shows "build_attempts [l] = []"
  using assms by (cases l) auto

lemma framed_attempts: "framed (\<lambda>s. build_attempts (console s))"
  by (simp add: framed_def build_attempts_append build_attempts_other)

lemma context_blind_attempts: "context_blind (\<lambda>s. build_attempts (console s))"
  by (simp add: context_blind_def)

lemma exit_blind_attempts: "exit_blind (\<lambda>s. build_attempts (console s))"
  by (simp add: exit_blind_def)

lemma guarded_build_attempts:
  "preserves (\<lambda>s. build_attempts (console s))
     (tryCatch (buildVersion_try X e) (buildVersion_catch e))"
  by (intro preserves_tryCatch framed_buildVersion_try blind_buildVersion_catch
      framed_attempts exit_blind_attempts)

lemma guarded_build_returns:
  "\<exists>r. fst (tryCatch (buildVersion_try X e) (buildVersion_catch e) s) = Inr r"
proof (cases "buildVersion_try X e s")
  case (Pair r s')
  show ?thesis
  proof (cases r)
    case (Inl err)
    then show ?thesis
      using Pair buildVersion_catch_result[of e err s'] by (simp add: tryCatch_def)
  next
    case (Inr x)
    then show ?thesis using Pair by (simp add: tryCatch_def)
  qed
qed

lemma announce_state:
  "snd (announce e s)
     = s\<lparr>console := console s @ [Building (ext_id e) (target_label (target (ctx s))),
                                   Processing e (ctx s)]\<rparr>"
  by (simp add: announce_def target_label_def prog_defs)

lemma buildVersion_without_cleanup:
  assumes "\<not> truthy (pythonVersion e)"
  shows "\<exists>r. fst (buildVersion X e s) = Inr r"
    and "build_attempts (console (snd (buildVersion X e s)))
           = build_attempts (console s) @ [(ext_id e, target_label (target (ctx s)))]"
    and "target (ctx (snd (buildVersion X e s))) = target (ctx s)"
proof -
  let ?guarded = "tryCatch (buildVersion_try X e) (buildVersion_catch e)"
  have b: "buildVersion X e s = ?guarded (snd (announce e s))"
    using assms
    by (cases "?guarded (snd (announce e s))")
       (simp add: buildVersion_unfold tryFinally_def buildVersion_finally_def returnP_def)
  show "\<exists>r. fst (buildVersion X e s) = Inr r"
    unfolding b by (rule guarded_build_returns)
  have "build_attempts (console (snd (?guarded (snd (announce e s)))))
          = build_attempts (console (snd (announce e s)))"
    using guarded_build_attempts[of X e] by (simp add: preserves_def)
  then show "build_attempts (console (snd (buildVersion X e s)))
           = build_attempts (console s) @ [(ext_id e, target_label (target (ctx s)))]"
    unfolding b by (simp add: announce_state build_attempts_append)
  have t: "framed (\<lambda>s. target (ctx s))" "exit_blind (\<lambda>s. target (ctx s))"
    by (simp_all add: framed_def exit_blind_def)
  have "preserves (\<lambda>s. target (ctx s)) ?guarded"
    by (intro preserves_tryCatch framed_buildVersion_try blind_buildVersion_catch t)
  then show "target (ctx (snd (buildVersion X e s))) = target (ctx s)"
    unfolding b by (simp add: preserves_def announce_state)
qed

lemma build_targets_attempts:
  assumes "\<not> truthy (pythonVersion e)"
  shows "(\<exists>r. fst (build_targets X e ts acc s) = Inr r)
         \<and> build_attempts (console (snd (build_targets X e ts acc s)))
             = build_attempts (console s)
                 @ map (\<lambda>entry. (ext_id e, target_label (Some (fst entry)))) ts"
proof (induction ts arbitrary: acc s)
  case Nil
  show ?case by (simp add: returnP_def)
next
  case (Cons entry rest)
  let ?s' = "s\<lparr>ctx := (case snd entry of
                 TargetTrue \<Rightarrow> (ctx s)\<lparr>target := Some (fst entry)\<rparr>
               | TargetObject ev \<Rightarrow>
                   (ctx s)\<lparr>target := Some (fst entry), environmentVariables := ev\<rparr>)\<rparr>"
  have c: "console ?s' = console s" and t: "target (ctx ?s') = Some (fst entry)"
    by (cases "snd entry"; simp)+
  have prep: "build_targets X e (entry # rest) acc s
                = bindP (buildVersion X e)
                    (\<lambda>r. build_targets X e rest (push_options acc r)) ?s'"
    by (cases "snd entry") (simp_all add: bindP_def modify_ctx_def returnP_def)
  obtain r s'' where bv: "buildVersion X e ?s' = (Inr r, s'')"
    using buildVersion_without_cleanup(1)[OF assms, of X ?s']
    by (cases "buildVersion X e ?s'") auto
  have a: "build_attempts (console s'')
             = build_attempts (console s) @ [(ext_id e, target_label (Some (fst entry)))]"
    using buildVersion_without_cleanup(2)[OF assms, of X ?s'] bv c t by simp
  have step: "build_targets X e (entry # rest) acc s
                = build_targets X e rest (push_options acc r) s''"
    unfolding prep using bv by (simp add: bindP_def)
  show ?case
    unfolding step using Cons.IH[of "push_options acc r" s''] a by simp
qed

lemma one_attempt_per_target:
  assumes "\<not> truthy (pythonVersion e)" and "files (ctx s) = None"
  shows "(ext_target e = Some ts \<longrightarrow>
            (\<exists>r. fst (buildExtension X e s) = Inr r)
            \<and> build_attempts (console (snd (buildExtension X e s)))
                = build_attempts (console s)
                    @ map (\<lambda>entry. (ext_id e, target_label (Some (fst entry)))) ts)
       \<and> (ext_target e = None \<longrightarrow>
            (\<exists>r. fst (buildExtension X e s) = Inr r)
            \<and> build_attempts (console (snd (buildExtension X e s)))
                = build_attempts (console s) @ [(ext_id e, target_label (target (ctx s)))])"
proof -
  let ?s = "s\<lparr>ctx := (ctx s)\<lparr>msLastUpdated := NewDate (msLastUpdated (ctx s)),
                              ovsxLastUpdated := NewDate (ovsxLastUpdated (ctx s))\<rparr>\<rparr>"
  have targets: "ext_target e = Some ts \<Longrightarrow>
     buildExtension X e s
       = (case build_targets X e ts [] ?s of
            (Inl err, s') \<Rightarrow> (Inl err, s')
          | (Inr allOptions, s') \<Rightarrow>
              (Inr (map opt_extensionFile
                      (filter (\<lambda>opts. opt_extensionFile opts \<noteq> []) allOptions)), s'))"
    using assms(2)
    by (simp add: buildExtension_def bindP_def modify_ctx_def get_ctx_def returnP_def
        split: prod.splits sum.splits)
  have universal: "ext_target e = None \<Longrightarrow>
     buildExtension X e s
       = (case buildVersion X e ?s of
            (Inl err, s') \<Rightarrow> (Inl err, s')
          | (Inr r, s') \<Rightarrow>
              (Inr (map opt_extensionFile
                      (filter (\<lambda>opts. opt_extensionFile opts \<noteq> []) (push_options [] r))), s'))"
    using assms(2)
    by (simp add: buildExtension_def bindP_def modify_ctx_def get_ctx_def returnP_def
        split: prod.splits sum.splits)
  show ?thesis
  proof (intro conjI impI)
    assume t: "ext_target e = Some ts"
    obtain r s' where bt: "build_targets X e ts [] ?s = (Inr r, s')"
      using build_targets_attempts[OF assms(1), of X ts "[]" ?s]
      by (cases "build_targets X e ts [] ?s") auto
    show "\<exists>r. fst (buildExtension X e s) = Inr r"
      using targets[OF t] bt by simp
    show "build_attempts (console (snd (buildExtension X e s)))
                = build_attempts (console s)
                    @ map (\<lambda>entry. (ext_id e, target_label (Some (fst entry)))) ts"
      using targets[OF t] bt build_targets_attempts[OF assms(1), of X ts "[]" ?s] by simp
  next
    assume t: "ext_target e = None"
    obtain r s' where bv: "buildVersion X e ?s = (Inr r, s')"
      using buildVersion_without_cleanup(1)[OF assms(1), of X ?s]
      by (cases "buildVersion X e ?s") auto
    show "\<exists>r. fst (buildExtension X e s) = Inr r"
      using universal[OF t] bv by simp
    show "build_attempts (console (snd (buildExtension X e s)))
                = build_attempts (console s) @ [(ext_id e, target_label (target (ctx s)))]"
      using universal[OF t] bv buildVersion_without_cleanup(2)[OF assms(1), of X ?s] by simp
  qed
qed

section \<open>What the prerequisite step removes\<close>

text \<open>
  The removal in an existing artifact directory \<open>d\<close> never throws, and leaves every path
  other than \<open>d\<close> followed by a star as it was.
\<close>

lemma star_removal_keeps_other_files:
  "\<exists>s'. tryCatch (rmSync (d @ ''*'')) (\<lambda>e. returnP ()) s = (Inr (), s')
        \<and> (\<forall>p. p \<noteq> d @ ''*'' \<longrightarrow> fs s' p = fs s p)"
  by (simp add: tryCatch_def rmSync_def returnP_def split: option.splits node.splits)

section \<open>The version gate\<close>

text \<open>
  C1. A build reaches the version gate when the steps before it (lines 64 to 215) end
  with a resolved version \<open>v\<close>. Let its context carry a registry version \<open>ov\<close> that semver
  compares equal to \<open>v\<close>. If \<open>FORCE\<close> is not \<open>true\<close>, the \<open>try\<close> block writes the skip
  line and returns no result; \<open>buildVersion\<close> is then the \<open>finally\<close> block run after that
  return, so it yields no options, it returns no result when the \<open>finally\<close> block
  completes, and the exit code is the one before. If \<open>FORCE\<close> is \<open>true\<close>, the \<open>try\<close> block
  goes on with the remaining gates; \<open>buildVersion\<close> is the \<open>finally\<close> block run after the
  options of these gates, or after the \<open>catch\<close> block for what they throw, so it returns
  the options of the remaining gates when they pass and the \<open>finally\<close> block completes.
\<close>

theorem equal_version_skips_unless_forced:
  assumes reach: "resolve X extension (snd (announce extension s))
                    = (Inr (packagePath, opts, xm, m, v), s1)"
      and known: "ovsxVersion (ctx s) = Some ov" "ov \<noteq> []"
      and equal: "semver_compare X ov v = Inr 0"
  shows "(env s ''FORCE'' \<noteq> Some ''true'' \<longrightarrow>
            buildVersion_try X extension (snd (announce extension s))
              = (Inr None,
                 s1\<lparr>console := console s1 @
                    [ConsoleLog (''[SKIPPED] Requested version '' @ v
                       @ '' is already published on Open VSX'')]\<rparr>)
            \<and> (\<forall>final. fst (buildVersion X extension s) \<noteq> Inr (Some final))
            \<and> exitCode (snd (buildVersion X extension s)) = exitCode s
            \<and> buildVersion X extension s
                = tryFinally (returnP None) (buildVersion_finally X extension)
                    (s1\<lparr>console := console s1 @
                       [ConsoleLog (''[SKIPPED] Requested version '' @ v
                          @ '' is already published on Open VSX'')]\<rparr>)
            \<and> (\<forall>s3. buildVersion_finally X extension
                       (s1\<lparr>console := console s1 @
                          [ConsoleLog (''[SKIPPED] Requested version '' @ v
                             @ '' is already published on Open VSX'')]\<rparr>) = (Inr (), s3) \<longrightarrow>
                  buildVersion X extension s = (Inr None, s3)))
       \<and> (env s ''FORCE'' = Some ''true'' \<longrightarrow>
            buildVersion_try X extension (snd (announce extension s))
              = (case remaining_gates X extension packagePath opts xm m s1 of
                   (Inl err, s2) \<Rightarrow> (Inl err, s2)
                 | (Inr final, s2) \<Rightarrow> (Inr (Some final), s2))
            \<and> buildVersion X extension s
                = (case remaining_gates X extension packagePath opts xm m s1 of
                     (Inl err, s2) \<Rightarrow>
                       tryFinally (buildVersion_catch extension err)
                         (buildVersion_finally X extension) s2
                   | (Inr final, s2) \<Rightarrow>
                       tryFinally (returnP (Some final)) (buildVersion_finally X extension) s2)
            \<and> (\<forall>final s2 s3.
                  remaining_gates X extension packagePath opts xm m s1 = (Inr final, s2)
                  \<and> buildVersion_finally X extension s2 = (Inr (), s3) \<longrightarrow>
                  buildVersion X extension s = (Inr (Some final), s3)))"
proof -
  let ?skipped = "s1\<lparr>console := console s1 @
                    [ConsoleLog (''[SKIPPED] Requested version '' @ v
                       @ '' is already published on Open VSX'')]\<rparr>"
  let ?entered = "snd (announce extension s)"
  let ?guarded = "tryCatch (buildVersion_try X extension) (buildVersion_catch extension)"
  let ?cleanup = "buildVersion_finally X extension"
  have force: "env s1 ''FORCE'' = env s ''FORCE''"
    using reach_frame[OF reach framed_FORCE console_blind_env] .
  have ovsx: "ovsxVersion (ctx s1) = Some ov"
    using reach_frame[OF reach framed_ovsxVersion console_blind_ovsxVersion] known(1) by simp
  have code: "exitCode s1 = exitCode s"
    using reach_frame[OF reach framed_exitCode console_blind_exitCode] .
  have gate: "version_gate X v s1 =
      (if env s ''FORCE'' \<noteq> Some ''true'' then (Inr False, ?skipped) else (Inr True, s1))"
    using ovsx known(2) equal force
    by (simp add: version_gate_def semver_gt_def semver_eq_def prog_defs)
  have body: "buildVersion_try X extension ?entered =
      (if env s ''FORCE'' \<noteq> Some ''true''
       then (Inr None, ?skipped)
       else (case remaining_gates X extension packagePath opts xm m s1 of
                   (Inl err, s2) \<Rightarrow> (Inl err, s2)
                 | (Inr final, s2) \<Rightarrow> (Inr (Some final), s2)))"
    using reach gate
    by (simp add: buildVersion_try_def bindP_def returnP_def split: prod.splits sum.splits)
  have whole: "buildVersion X extension s = tryFinally ?guarded ?cleanup ?entered"
    by (rule buildVersion_unfold)
  have skip: "env s ''FORCE'' \<noteq> Some ''true'' \<longrightarrow>
            buildVersion_try X extension ?entered = (Inr None, ?skipped)
            \<and> (\<forall>final. fst (buildVersion X extension s) \<noteq> Inr (Some final))
            \<and> exitCode (snd (buildVersion X extension s)) = exitCode s
            \<and> buildVersion X extension s = tryFinally (returnP None) ?cleanup ?skipped
            \<and> (\<forall>s3. ?cleanup ?skipped = (Inr (), s3) \<longrightarrow>
                  buildVersion X extension s = (Inr None, s3))"
  proof
    assume nf: "env s ''FORCE'' \<noteq> Some ''true''"
    have t: "buildVersion_try X extension ?entered = (Inr None, ?skipped)"
      using body nf by simp
    have c: "?guarded ?entered = (Inr None, ?skipped)"
      using t by (simp add: tryCatch_def)
    have none: "\<forall>final. fst (buildVersion X extension s) \<noteq> Inr (Some final)"
      using buildVersion_returns_None(1)[OF c] .
    have exit: "exitCode (snd (buildVersion X extension s)) = exitCode s"
      using buildVersion_returns_None(3)[OF c] code by simp
    have after: "buildVersion X extension s = tryFinally (returnP None) ?cleanup ?skipped"
      unfolding whole using c by (simp add: tryFinally_def returnP_def)
    have returns: "\<forall>s3. ?cleanup ?skipped = (Inr (), s3) \<longrightarrow>
                  buildVersion X extension s = (Inr None, s3)"
      unfolding after by (simp add: tryFinally_def returnP_def)
    show "buildVersion_try X extension ?entered = (Inr None, ?skipped)
            \<and> (\<forall>final. fst (buildVersion X extension s) \<noteq> Inr (Some final))
            \<and> exitCode (snd (buildVersion X extension s)) = exitCode s
            \<and> buildVersion X extension s = tryFinally (returnP None) ?cleanup ?skipped
            \<and> (\<forall>s3. ?cleanup ?skipped = (Inr (), s3) \<longrightarrow>
                  buildVersion X extension s = (Inr None, s3))"
      using t none exit after returns by blast
  qed
  have forced: "env s ''FORCE'' = Some ''true'' \<longrightarrow>
            buildVersion_try X extension ?entered
              = (case remaining_gates X extension packagePath opts xm m s1 of
                   (Inl err, s2) \<Rightarrow> (Inl err, s2)
                 | (Inr final, s2) \<Rightarrow> (Inr (Some final), s2))
            \<and> buildVersion X extension s
                = (case remaining_gates X extension packagePath opts xm m s1 of
                     (Inl err, s2) \<Rightarrow> tryFinally (buildVersion_catch extension err) ?cleanup s2
                   | (Inr final, s2) \<Rightarrow> tryFinally (returnP (Some final)) ?cleanup s2)
            \<and> (\<forall>final s2 s3.
                  remaining_gates X extension packagePath opts xm m s1 = (Inr final, s2)
                  \<and> ?cleanup s2 = (Inr (), s3) \<longrightarrow>
                  buildVersion X extension s = (Inr (Some final), s3))"
  proof
    assume f: "env s ''FORCE'' = Some ''true''"
    have t: "buildVersion_try X extension ?entered
              = (case remaining_gates X extension packagePath opts xm m s1 of
                   (Inl err, s2) \<Rightarrow> (Inl err, s2)
                 | (Inr final, s2) \<Rightarrow> (Inr (Some final), s2))"
      using body f by simp
    have after: "buildVersion X extension s
                = (case remaining_gates X extension packagePath opts xm m s1 of
                     (Inl err, s2) \<Rightarrow> tryFinally (buildVersion_catch extension err) ?cleanup s2
                   | (Inr final, s2) \<Rightarrow> tryFinally (returnP (Some final)) ?cleanup s2)"
    proof (cases "remaining_gates X extension packagePath opts xm m s1")
      case (Pair r s2)
      show ?thesis
        unfolding whole using t Pair
        by (cases r) (simp_all add: tryFinally_def tryCatch_def returnP_def)
    qed
    have returns: "\<forall>final s2 s3.
                  remaining_gates X extension packagePath opts xm m s1 = (Inr final, s2)
                  \<and> ?cleanup s2 = (Inr (), s3) \<longrightarrow>
                  buildVersion X extension s = (Inr (Some final), s3)"
      unfolding after by (simp add: tryFinally_def returnP_def)
    show "buildVersion_try X extension ?entered
              = (case remaining_gates X extension packagePath opts xm m s1 of
                   (Inl err, s2) \<Rightarrow> (Inl err, s2)
                 | (Inr final, s2) \<Rightarrow> (Inr (Some final), s2))
            \<and> buildVersion X extension s
                = (case remaining_gates X extension packagePath opts xm m s1 of
                     (Inl err, s2) \<Rightarrow> tryFinally (buildVersion_catch extension err) ?cleanup s2
                   | (Inr final, s2) \<Rightarrow> tryFinally (returnP (Some final)) ?cleanup s2)
            \<and> (\<forall>final s2 s3.
                  remaining_gates X extension packagePath opts xm m s1 = (Inr final, s2)
                  \<and> ?cleanup s2 = (Inr (), s3) \<longrightarrow>
                  buildVersion X extension s = (Inr (Some final), s3))"
      using t after returns by blast
  qed
  show ?thesis
    using skip forced by blast
qed

theorem equal_version_skips_unless_forced_witness:
  "fst (buildVersion_try plain_world plain_extension
          (snd (announce plain_extension (published_state None)))) = Inr None
   \<and> fst (buildVersion plain_world plain_extension (published_state None)) = Inr None
   \<and> exitCode (snd (buildVersion plain_world plain_extension (published_state None))) = None
   \<and> fst (buildVersion_try plain_world plain_extension
          (snd (announce plain_extension (published_state (Some ''true'')))))
       = Inr (Some \<lparr>opt_extensionFile = ''/tmp/artifacts/acme.tool.vsix'',
                      targets = Some [None], yarn = None\<rparr>)
   \<and> fst (buildVersion plain_world plain_extension (published_state (Some ''true'')))
       = Inr (Some \<lparr>opt_extensionFile = ''/tmp/artifacts/acme.tool.vsix'',
                      targets = Some [None], yarn = None\<rparr>)
   \<and> fs (snd (buildVersion plain_world plain_extension (published_state (Some ''true''))))
        ''/tmp/artifacts/acme.tool.vsix'' = Some (File ''vsix'')"
proof -
  have reach: "resolve plain_world plain_extension
                 (snd (announce plain_extension (published_state force)))
     = (Inr (None, \<lparr>opt_extensionFile = ''/tmp/download/acme.tool.vsix'',
                      targets = Some [None], yarn = None\<rparr>, None, Some plain_manifest, ''1.0.0''),
        (published_state force)\<lparr>console := [Building ''acme.tool'' ''universal'',
            Processing plain_extension (ctx (published_state force))],
          ctx := (ctx (published_state force))\<lparr>version := Some ''1.0.0''\<rparr>\<rparr>)" for force
    by (simp add: build_defs prog_defs plain_defs published_state_def)
  have known: "ovsxVersion (ctx (published_state force)) = Some ''1.0.0''" for force
    by (simp add: published_state_def plain_defs)
  have equal: "semver_compare plain_world ''1.0.0'' ''1.0.0'' = Inr 0"
    by (simp add: plain_defs)
  have given: "''1.0.0'' \<noteq> []"
    by simp
  have skipped: "env (published_state None) ''FORCE'' \<noteq> Some ''true''"
    by (simp add: published_state_def)
  have forced: "env (published_state (Some ''true'')) ''FORCE'' = Some ''true''"
    by (simp add: published_state_def)
  note skip = equal_version_skips_unless_forced[OF reach known given equal, of None,
      THEN conjunct1, rule_format, OF skipped]
  note go = equal_version_skips_unless_forced[OF reach known given equal, of "Some ''true''",
      THEN conjunct2, rule_format, OF forced]
  have a: "fst (buildVersion_try plain_world plain_extension
          (snd (announce plain_extension (published_state None)))) = Inr None"
    using skip[THEN conjunct1] by simp
  have b: "fst (buildVersion plain_world plain_extension (published_state None)) = Inr None
     \<and> exitCode (snd (buildVersion plain_world plain_extension (published_state None))) = None"
    unfolding skip[THEN conjunct2, THEN conjunct2, THEN conjunct2, THEN conjunct1]
    by (simp add: tryFinally_def build_defs prog_defs plain_defs published_state_def)
  have c: "fst (buildVersion_try plain_world plain_extension
          (snd (announce plain_extension (published_state (Some ''true'')))))
       = Inr (Some \<lparr>opt_extensionFile = ''/tmp/artifacts/acme.tool.vsix'',
                      targets = Some [None], yarn = None\<rparr>)"
    using go[THEN conjunct1]
    by (simp add: build_defs prog_defs plain_defs published_state_def)
  have d: "fst (buildVersion plain_world plain_extension (published_state (Some ''true'')))
       = Inr (Some \<lparr>opt_extensionFile = ''/tmp/artifacts/acme.tool.vsix'',
                      targets = Some [None], yarn = None\<rparr>)
     \<and> fs (snd (buildVersion plain_world plain_extension (published_state (Some ''true''))))
        ''/tmp/artifacts/acme.tool.vsix'' = Some (File ''vsix'')"
    unfolding go[THEN conjunct2, THEN conjunct1]
    by (simp add: tryFinally_def build_defs prog_defs plain_defs published_state_def)
  show ?thesis
    using a b c d by simp
qed

text \<open>
  C2. Let a build reach the version gate with resolved version \<open>v\<close>, and let its context
  carry a registry version \<open>ov\<close> that semver compares greater than \<open>v\<close>. Whatever \<open>FORCE\<close>
  is, the \<open>try\<close> block throws the error that says that \<open>extensions.json\<close> is out-of-date,
  \<open>buildVersion\<close> yields no options, and the last console line is that error. When the
  two versions have no blank in them, as valid versions do, the error is taken as a
  failure: the console ends with the failure line and the error, and the exit code is 1.
\<close>

theorem newer_registry_version_fails:
  assumes reach: "resolve X extension (snd (announce extension s))
                    = (Inr (packagePath, opts, xm, m, v), s1)"
      and known: "ovsxVersion (ctx s) = Some ov" "ov \<noteq> []"
      and greater: "semver_compare X ov v = Inr c" "0 < c"
  shows "buildVersion_try X extension (snd (announce extension s))
           = (Inl (new_Error (out_of_date_message ov v)), s1)
         \<and> (\<forall>final. fst (buildVersion X extension s) \<noteq> Inr (Some final))
         \<and> last (console (snd (buildVersion X extension s)))
             \<in> {LogThrown (new_Error (out_of_date_message ov v)),
                 ErrorThrown (new_Error (out_of_date_message ov v))}
         \<and> (CHR '' '' \<notin> set ov \<and> CHR '' '' \<notin> set v \<longrightarrow>
              exitCode (snd (buildVersion X extension s)) = Some 1
              \<and> console (snd (buildVersion X extension s))
                  = console s1 @ [Fail extension (ctx s1),
                                  ErrorThrown (new_Error (out_of_date_message ov v))])"
proof -
  have ovsx: "ovsxVersion (ctx s1) = Some ov"
    using reach_frame[OF reach framed_ovsxVersion console_blind_ovsxVersion] known(1) by simp
  have gate: "version_gate X v s1 = (Inl (new_Error (out_of_date_message ov v)), s1)"
    using ovsx known(2) greater
    by (simp add: version_gate_def semver_gt_def prog_defs)
  have body: "buildVersion_try X extension (snd (announce extension s))
           = (Inl (new_Error (out_of_date_message ov v)), s1)"
    using reach gate by (simp add: buildVersion_try_def bindP_def)
  note after = buildVersion_after_throw[OF body]
  show ?thesis
  proof (intro conjI impI)
    show "buildVersion_try X extension (snd (announce extension s))
           = (Inl (new_Error (out_of_date_message ov v)), s1)"
      by (rule body)
    show "\<forall>final. fst (buildVersion X extension s) \<noteq> Inr (Some final)"
      by (rule after(1))
    show "last (console (snd (buildVersion X extension s)))
             \<in> {LogThrown (new_Error (out_of_date_message ov v)),
                 ErrorThrown (new_Error (out_of_date_message ov v))}"
      unfolding after(2) by (rule buildVersion_catch_reports)
  next
    assume plain: "CHR '' '' \<notin> set ov \<and> CHR '' '' \<notin> set v"
    then have "indexOf (String_of (new_Error (out_of_date_message ov v)))
                 ''is already published.'' = - 1"
      by (simp add: out_of_date_not_benign)
    note fail = buildVersion_catch_fail[OF this, of extension s1]
    show "exitCode (snd (buildVersion X extension s)) = Some 1"
      unfolding after(3) fail by simp
    show "console (snd (buildVersion X extension s))
                  = console s1 @ [Fail extension (ctx s1),
                                  ErrorThrown (new_Error (out_of_date_message ov v))]"
      unfolding after(2) fail by simp
  qed
qed

theorem newer_registry_version_fails_witness:
  "fst (buildVersion_try plain_world plain_extension
          (snd (announce plain_extension
            ((published_state (Some ''true''))\<lparr>ctx := (ctx (published_state (Some ''true'')))
               \<lparr>ovsxVersion := Some ''1.2.0''\<rparr>\<rparr>))))
     = Inl (new_Error (out_of_date_message ''1.2.0'' ''1.0.0''))
   \<and> exitCode (snd (buildVersion plain_world plain_extension
         ((published_state (Some ''true''))\<lparr>ctx := (ctx (published_state (Some ''true'')))
               \<lparr>ovsxVersion := Some ''1.2.0''\<rparr>\<rparr>))) = Some 1"
proof -
  let ?s = "(published_state (Some ''true''))\<lparr>ctx := (ctx (published_state (Some ''true'')))
               \<lparr>ovsxVersion := Some ''1.2.0''\<rparr>\<rparr>"
  have reach: "resolve plain_world plain_extension (snd (announce plain_extension ?s))
     = (Inr (None, \<lparr>opt_extensionFile = ''/tmp/download/acme.tool.vsix'',
                      targets = Some [None], yarn = None\<rparr>, None, Some plain_manifest, ''1.0.0''),
        ?s\<lparr>console := [Building ''acme.tool'' ''universal'', Processing plain_extension (ctx ?s)],
          ctx := (ctx ?s)\<lparr>version := Some ''1.0.0''\<rparr>\<rparr>)"
    by (simp add: build_defs prog_defs plain_defs published_state_def)
  have known: "ovsxVersion (ctx ?s) = Some ''1.2.0''"
    by simp
  have greater: "semver_compare plain_world ''1.2.0'' ''1.0.0'' = Inr 1"
    by (simp add: plain_defs)
  show ?thesis
    using newer_registry_version_fails[OF reach known _ greater]
    by simp
qed

section \<open>One build for each target\<close>

text \<open>
  C3. The claim is that each declared target gets its build attempt, whatever fails in an
  earlier attempt. The \<open>finally\<close> block of \<open>buildVersion\<close> runs \<open>pyenv global\<close> outside the
  \<open>catch\<close> block, for an extension with a Python version. On a machine without \<open>pyenv\<close>
  the first of two targets is built and copied, then the command of the \<open>finally\<close> block
  fails, the exported function throws, and the second target is never attempted. Where
  \<open>pyenv\<close> works, both targets are attempted in order, and an extension without targets
  gets one attempt for the universal target.
\<close>

theorem cleanup_failure_stops_remaining_targets:
  "fst (buildExtension no_pyenv_world two_target_extension source_state)
     = Inl (ErrorObj ''Error'' ''Command failed: pyenv global 3.8'')
   \<and> build_attempts (console (snd (buildExtension no_pyenv_world two_target_extension
                                     source_state)))
     = [(''acme.tool'', ''linux-x64'')]
   \<and> fs (snd (buildExtension no_pyenv_world two_target_extension source_state))
        ''/tmp/artifacts/acme.tool@linux-x64.vsix'' = Some (File ''vsix'')
   \<and> build_attempts (console (snd (buildExtension plain_world two_target_extension
                                     source_state)))
     = [(''acme.tool'', ''linux-x64''), (''acme.tool'', ''darwin-arm64'')]
   \<and> build_attempts (console (snd (buildExtension plain_world plain_extension source_state)))
     = [(''acme.tool'', ''universal'')]"
  by (simp add: source_defs build_defs prog_defs plain_defs no_pyenv_world_def
      two_target_extension_def source_state_def)

section \<open>The dependency gate and the registry\<close>

text \<open>
  C4, as the claim states it, fails: the build first checks the dependencies against the
  list of extensions that cannot be published and fails on those alone. Here \<open>ms.closed\<close>
  and \<open>acme.lib\<close> are both absent from the registry, and the error names \<open>ms.closed\<close> only.
\<close>

theorem missing_dependencies_counterexample:
  "fst (getExtension closed_source_world ''ms.closed''
          (fs (published_state (Some ''true'')), world (published_state (Some ''true''))))
     = Inr None
   \<and> fst (getExtension closed_source_world ''acme.lib''
          (fs (published_state (Some ''true'')), world (published_state (Some ''true''))))
     = Inr None
   \<and> fst (buildVersion_try closed_source_world plain_extension
          (snd (announce plain_extension (published_state (Some ''true'')))))
     = Inl (new_Error (''acme.tool is dependent on ms.closed, which has to be published ''
              @ ''to Open VSX first by its author because of its license.''))
   \<and> fst (buildVersion_try closed_source_world plain_extension
          (snd (announce plain_extension (published_state (Some ''true'')))))
     \<noteq> Inl (new_Error (not_on_open_vsx_message ''acme.tool'' [''ms.closed'', ''acme.lib'']))"
  by (simp add: build_defs prog_defs plain_defs published_state_def closed_source_world_def
      isBuiltIn_def unpublishable_message_def not_on_open_vsx_message_def)

text \<open>
  C4, amended. Let a build reach the dependency gate with declared dependencies \<open>deps\<close>,
  none of which is both not built-in and on the list of extensions that cannot be
  published, and let the catalogue be read with keys \<open>keys\<close>. Let \<open>reg\<close> give the answer of
  the registry for each dependency, and let \<open>missing\<close> be all the dependencies, in order,
  that are not built-in, are not shortcut (\<open>SKIP_PUBLISH\<close> set and the dependency a key of
  the catalogue) and for which the lookup is fulfilled with no extension. If \<open>missing\<close> is
  not empty, the \<open>try\<close> block throws one error whose message lists all of \<open>missing\<close>, and
  \<open>buildVersion\<close> yields no options.
\<close>

theorem missing_dependencies_named_together:
  assumes reach: "resolve X extension (snd (announce extension s))
                    = (Inr (packagePath, opts, xm, Some man, v), s1)"
      and pass: "version_gate X v s1 = (Inr True, s2)"
      and licensed: "license_gate X extension packagePath xm (Some man) s2 = (Inr (), s3)"
      and deps: "extensionDependencies man = Some deps"
      and publishable: "\<forall>d \<in> set deps. \<not> isBuiltIn d \<longrightarrow> d \<notin> set (cannotPublish X)"
      and catalogue: "fs s3 ''./extensions.json'' = Some (File text)"
                     "catalogue_keys X text = Inr keys"
      and reg: "\<forall>d outside. fst (getExtension X d outside) = reg d"
      and missing: "missing = filter (\<lambda>d. \<not> isBuiltIn d
                      \<and> \<not> (truthy (env s ''SKIP_PUBLISH'') \<and> truthy (find (\<lambda>key. key = d) keys))
                      \<and> reg d = Inr None) deps"
      and some: "missing \<noteq> []"
  shows "fst (buildVersion_try X extension (snd (announce extension s)))
           = Inl (new_Error (ext_id extension @ '' is dependent on '' @ join '', '' missing
               @ '', which '' @ (if length missing = 1 then ''has'' else ''have'')
               @ '' to be published to Open VSX first''))
         \<and> (\<forall>final. fst (buildVersion X extension s) \<noteq> Inr (Some final))"
proof -
  have "env s1 ''SKIP_PUBLISH'' = env s ''SKIP_PUBLISH''"
    using reach_frame[OF reach framed_SKIP_PUBLISH console_blind_env] .
  moreover have "env s2 ''SKIP_PUBLISH'' = env s1 ''SKIP_PUBLISH''"
    using preservesD[OF framed_version_gate[OF framed_SKIP_PUBLISH] pass] .
  moreover have "env s3 ''SKIP_PUBLISH'' = env s2 ''SKIP_PUBLISH''"
    using preservesD[OF framed_license_gate[OF framed_SKIP_PUBLISH] licensed] .
  ultimately have e: "env s3 ''SKIP_PUBLISH'' = env s ''SKIP_PUBLISH''"
    by simp
  have none: "filter (\<lambda>d. d \<in> set (cannotPublish X)) (filter (\<lambda>d. \<not> isBuiltIn d) deps) = []"
    using publishable by (auto simp add: filter_empty_conv)
  have m: "filter (\<lambda>d. \<not> (truthy (env s3 ''SKIP_PUBLISH'')
                              \<and> truthy (find (\<lambda>key. key = d) keys))
                         \<and> reg d = Inr None) (filter (\<lambda>d. \<not> isBuiltIn d) deps) = missing"
    unfolding missing e by (simp add: conj_commute conj_left_commute cong: conj_cong)
  have "fst (dependency_gate X extension (Some man) s3)
          = Inl (new_Error (not_on_open_vsx_message (ext_id extension) missing))"
    using dependency_gate_result[OF deps none catalogue reg, of extension] some
    unfolding m by (simp add: Let_def)
  from buildVersion_try_dependency_error[OF reach pass licensed this]
  obtain s4 where body: "buildVersion_try X extension (snd (announce extension s))
      = (Inl (new_Error (not_on_open_vsx_message (ext_id extension) missing)), s4)"
    by blast
  show ?thesis
    using body buildVersion_after_throw(1)[OF body]
    by (simp add: not_on_open_vsx_message_def)
qed

theorem missing_dependencies_named_together_witness:
  "fst (buildVersion_try dependent_world plain_extension
          (snd (announce plain_extension catalogue_state)))
     = Inl (new_Error
         ''acme.tool is dependent on acme.lib, acme.other, which have to be published to Open VSX first'')"
proof -
  let ?s = "catalogue_state"
  let ?s1 = "?s\<lparr>console := [Building ''acme.tool'' ''universal'',
            Processing plain_extension (ctx ?s)],
          ctx := (ctx ?s)\<lparr>version := Some ''1.0.0''\<rparr>\<rparr>"
  let ?man = "plain_manifest\<lparr>extensionDependencies :=
                  Some [''vscode.git'', ''acme.lib'', ''acme.other'']\<rparr>"
  have reach: "resolve dependent_world plain_extension (snd (announce plain_extension ?s))
     = (Inr (None, \<lparr>opt_extensionFile = ''/tmp/download/acme.tool.vsix'',
                      targets = Some [None], yarn = None\<rparr>, None, Some ?man, ''1.0.0''), ?s1)"
    by (simp add: build_defs prog_defs plain_defs published_state_def catalogue_state_def
        dependent_world_def)
  have pass: "version_gate dependent_world ''1.0.0'' ?s1 = (Inr True, ?s1)"
    by (simp add: build_defs prog_defs plain_defs published_state_def catalogue_state_def
        dependent_world_def)
  have licensed: "license_gate dependent_world plain_extension None None (Some ?man) ?s1
                    = (Inr (), ?s1)"
    by (simp add: build_defs prog_defs plain_defs)
  have deps: "extensionDependencies ?man = Some [''vscode.git'', ''acme.lib'', ''acme.other'']"
    by simp
  have publishable: "\<forall>d \<in> set [''vscode.git'', ''acme.lib'', ''acme.other''].
                       \<not> isBuiltIn d \<longrightarrow> d \<notin> set (cannotPublish dependent_world)"
    by (simp add: dependent_world_def plain_defs)
  have catalogue: "fs ?s1 ''./extensions.json'' = Some (File ''{}'')"
      "catalogue_keys dependent_world ''{}'' = Inr []"
    by (simp_all add: catalogue_state_def dependent_world_def plain_defs)
  have reg: "\<forall>d outside. fst (getExtension dependent_world d outside) = Inr None"
    by (simp add: dependent_world_def plain_defs)
  have missing: "[''acme.lib'', ''acme.other''] = filter (\<lambda>d. \<not> isBuiltIn d
                      \<and> \<not> (truthy (env ?s ''SKIP_PUBLISH'') \<and> truthy (find (\<lambda>key. key = d) []))
                      \<and> (Inr None :: thrown + publishedExtension option) = Inr None)
                   [''vscode.git'', ''acme.lib'', ''acme.other'']"
    by (simp add: isBuiltIn_def truthy_def)
  show ?thesis
    using missing_dependencies_named_together[OF reach pass licensed deps publishable catalogue
        reg missing]
    by (simp add: plain_defs)
qed

section \<open>The license gate\<close>

text \<open>
  C5. Let a build reach the license gate: the steps before the version gate end with the
  manifests \<open>xm\<close> and \<open>man\<close>, and the version gate lets the build go on. Let \<open>xl\<close> be the
  license entry of the XML manifest. If \<open>xl\<close> and the license field of \<open>man\<close> are both
  empty, and the license check is not consulted (there is no package path) or answers
  no, the \<open>try\<close> block throws the error "license is missing" and \<open>buildVersion\<close> yields no
  options. If \<open>xl\<close> or the license field is there, or the license check answers yes, the
  license gate passes and the \<open>try\<close> block goes on with the dependency gate.
\<close>

theorem license_gate_decides:
  assumes reach: "resolve X extension (snd (announce extension s))
                    = (Inr (packagePath, opts, xm, Some man, v), s1)"
      and pass: "version_gate X v s1 = (Inr True, s2)"
      and xml: "xml_license xm = Inr xl"
  shows "(\<not> truthy xl \<and> \<not> truthy (license man) \<and> \<not> truthy packagePath \<longrightarrow>
            buildVersion_try X extension (snd (announce extension s))
              = (Inl (new_Error (ext_id extension @ '': license is missing'')), s2)
            \<and> (\<forall>final. fst (buildVersion X extension s) \<noteq> Inr (Some final)))
       \<and> (\<forall>p s3. \<not> truthy xl \<and> \<not> truthy (license man) \<and> packagePath = Some p \<and> p \<noteq> []
              \<and> ext_call (isLicenseOk X p man) s2 = (Inr False, s3) \<longrightarrow>
            buildVersion_try X extension (snd (announce extension s))
              = (Inl (new_Error (ext_id extension @ '': license is missing'')), s3)
            \<and> (\<forall>final. fst (buildVersion X extension s) \<noteq> Inr (Some final)))
       \<and> (truthy xl \<or> truthy (license man) \<longrightarrow>
            license_gate X extension packagePath xm (Some man) s2 = (Inr (), s2)
            \<and> buildVersion_try X extension (snd (announce extension s))
                = (case bindP (dependency_gate X extension (Some man))
                          (\<lambda>u. finalize X extension opts) s2 of
                     (Inl err, s4) \<Rightarrow> (Inl err, s4)
                   | (Inr final, s4) \<Rightarrow> (Inr (Some final), s4)))
       \<and> (\<forall>p s3. \<not> truthy xl \<and> \<not> truthy (license man) \<and> packagePath = Some p \<and> p \<noteq> []
              \<and> ext_call (isLicenseOk X p man) s2 = (Inr True, s3) \<longrightarrow>
            license_gate X extension packagePath xm (Some man) s2 = (Inr (), s3)
            \<and> buildVersion_try X extension (snd (announce extension s))
                = (case bindP (dependency_gate X extension (Some man))
                          (\<lambda>u. finalize X extension opts) s3 of
                     (Inl err, s4) \<Rightarrow> (Inl err, s4)
                   | (Inr final, s4) \<Rightarrow> (Inr (Some final), s4)))"
proof -
  have body: "buildVersion_try X extension (snd (announce extension s))
      = (case license_gate X extension packagePath xm (Some man) s2 of
           (Inl err, s') \<Rightarrow> (Inl err, s')
         | (Inr u, s') \<Rightarrow>
             (case bindP (dependency_gate X extension (Some man))
                          (\<lambda>u. finalize X extension opts) s' of
                     (Inl err, s4) \<Rightarrow> (Inl err, s4)
                   | (Inr final, s4) \<Rightarrow> (Inr (Some final), s4)))"
    using reach pass
    by (simp add: buildVersion_try_def remaining_gates_def bindP_def returnP_def
        split: prod.splits sum.splits)
  have c1: "\<not> truthy xl \<and> \<not> truthy (license man) \<and> \<not> truthy packagePath \<longrightarrow>
            buildVersion_try X extension (snd (announce extension s))
              = (Inl (new_Error (ext_id extension @ '': license is missing'')), s2)
            \<and> (\<forall>final. fst (buildVersion X extension s) \<noteq> Inr (Some final))"
  proof (intro impI conjI)
    assume a: "\<not> truthy xl \<and> \<not> truthy (license man) \<and> \<not> truthy packagePath"
    then have "license_gate X extension packagePath xm (Some man) s2
                 = (Inl (new_Error (ext_id extension @ '': license is missing'')), s2)"
      using xml
      by (auto simp add: license_gate_def truthy_def prog_defs split: option.splits)
    then show b: "buildVersion_try X extension (snd (announce extension s))
              = (Inl (new_Error (ext_id extension @ '': license is missing'')), s2)"
      using body by simp
    show "\<forall>final. fst (buildVersion X extension s) \<noteq> Inr (Some final)"
      by (rule buildVersion_after_throw(1)[OF b])
  qed
  have c2: "\<not> truthy xl \<and> \<not> truthy (license man) \<and> packagePath = Some p \<and> p \<noteq> []
              \<and> ext_call (isLicenseOk X p man) s2 = (Inr False, s3) \<longrightarrow>
            buildVersion_try X extension (snd (announce extension s))
              = (Inl (new_Error (ext_id extension @ '': license is missing'')), s3)
            \<and> (\<forall>final. fst (buildVersion X extension s) \<noteq> Inr (Some final))" for p s3
  proof (intro impI conjI)
    assume a: "\<not> truthy xl \<and> \<not> truthy (license man) \<and> packagePath = Some p \<and> p \<noteq> []
              \<and> ext_call (isLicenseOk X p man) s2 = (Inr False, s3)"
    then have "license_gate X extension packagePath xm (Some man) s2
                 = (Inl (new_Error (ext_id extension @ '': license is missing'')), s3)"
      using xml
      by (simp add: license_gate_def liftE_def bindP_def throwP_def returnP_def)
    then show b: "buildVersion_try X extension (snd (announce extension s))
              = (Inl (new_Error (ext_id extension @ '': license is missing'')), s3)"
      using body by simp
    show "\<forall>final. fst (buildVersion X extension s) \<noteq> Inr (Some final)"
      by (rule buildVersion_after_throw(1)[OF b])
  qed
  have c3: "truthy xl \<or> truthy (license man) \<longrightarrow>
            license_gate X extension packagePath xm (Some man) s2 = (Inr (), s2)
            \<and> buildVersion_try X extension (snd (announce extension s))
                = (case bindP (dependency_gate X extension (Some man))
                          (\<lambda>u. finalize X extension opts) s2 of
                     (Inl err, s4) \<Rightarrow> (Inl err, s4)
                   | (Inr final, s4) \<Rightarrow> (Inr (Some final), s4))"
  proof (intro impI conjI)
    assume a: "truthy xl \<or> truthy (license man)"
    then show g: "license_gate X extension packagePath xm (Some man) s2 = (Inr (), s2)"
      using xml
      by (auto simp add: license_gate_def liftE_def bindP_def throwP_def returnP_def)
    show "buildVersion_try X extension (snd (announce extension s))
                = (case bindP (dependency_gate X extension (Some man))
                          (\<lambda>u. finalize X extension opts) s2 of
                     (Inl err, s4) \<Rightarrow> (Inl err, s4)
                   | (Inr final, s4) \<Rightarrow> (Inr (Some final), s4))"
      using body g by simp
  qed
  have c4: "\<not> truthy xl \<and> \<not> truthy (license man) \<and> packagePath = Some p \<and> p \<noteq> []
              \<and> ext_call (isLicenseOk X p man) s2 = (Inr True, s3) \<longrightarrow>
            license_gate X extension packagePath xm (Some man) s2 = (Inr (), s3)
            \<and> buildVersion_try X extension (snd (announce extension s))
                = (case bindP (dependency_gate X extension (Some man))
                          (\<lambda>u. finalize X extension opts) s3 of
                     (Inl err, s4) \<Rightarrow> (Inl err, s4)
                   | (Inr final, s4) \<Rightarrow> (Inr (Some final), s4))" for p s3
  proof (intro impI conjI)
    assume a: "\<not> truthy xl \<and> \<not> truthy (license man) \<and> packagePath = Some p \<and> p \<noteq> []
              \<and> ext_call (isLicenseOk X p man) s2 = (Inr True, s3)"
    then show g: "license_gate X extension packagePath xm (Some man) s2 = (Inr (), s3)"
      using xml
      by (simp add: license_gate_def liftE_def bindP_def throwP_def returnP_def)
    show "buildVersion_try X extension (snd (announce extension s))
                = (case bindP (dependency_gate X extension (Some man))
                          (\<lambda>u. finalize X extension opts) s3 of
                     (Inl err, s4) \<Rightarrow> (Inl err, s4)
                   | (Inr final, s4) \<Rightarrow> (Inr (Some final), s4))"
      using body g by simp
  qed
  show ?thesis
    using c1 c2 c3 c4 by blast
qed

theorem license_gate_decides_witness:
  "fst (buildVersion_try plain_world plain_extension
          (snd (announce plain_extension (published_state (Some ''true'')))))
     = Inr (Some \<lparr>opt_extensionFile = ''/tmp/artifacts/acme.tool.vsix'',
                    targets = Some [None], yarn = None\<rparr>)
   \<and> fst (buildVersion_try (plain_world\<lparr>readVSIXPackage := (\<lambda>path outside.
            (Inr (None, plain_manifest\<lparr>license := None\<rparr>), outside))\<rparr>) plain_extension
          (snd (announce plain_extension (published_state (Some ''true'')))))
     = Inl (new_Error ''acme.tool: license is missing'')"
proof -
  let ?s = "published_state (Some ''true'')"
  let ?X = "plain_world\<lparr>readVSIXPackage := (\<lambda>path outside.
            (Inr (None, plain_manifest\<lparr>license := None\<rparr>), outside))\<rparr>"
  let ?s1 = "?s\<lparr>console := [Building ''acme.tool'' ''universal'',
            Processing plain_extension (ctx ?s)],
          ctx := (ctx ?s)\<lparr>version := Some ''1.0.0''\<rparr>\<rparr>"
  let ?opts = "\<lparr>opt_extensionFile = ''/tmp/download/acme.tool.vsix'',
                      targets = Some [None], yarn = None\<rparr>"
  have reach: "resolve plain_world plain_extension (snd (announce plain_extension ?s))
     = (Inr (None, ?opts, None, Some plain_manifest, ''1.0.0''), ?s1)"
    by (simp add: build_defs prog_defs plain_defs published_state_def)
  have pass: "version_gate plain_world ''1.0.0'' ?s1 = (Inr True, ?s1)"
    by (simp add: build_defs prog_defs plain_defs published_state_def)
  have reach': "resolve ?X plain_extension (snd (announce plain_extension ?s))
     = (Inr (None, ?opts, None, Some (plain_manifest\<lparr>license := None\<rparr>), ''1.0.0''), ?s1)"
    by (simp add: build_defs prog_defs plain_defs published_state_def)
  have pass': "version_gate ?X ''1.0.0'' ?s1 = (Inr True, ?s1)"
    by (simp add: build_defs prog_defs plain_defs published_state_def)
  have xml: "xml_license None = Inr None"
    by (simp add: build_defs)
  show ?thesis
    using license_gate_decides[OF reach pass xml] license_gate_decides[OF reach' pass' xml]
    by (simp add: build_defs prog_defs plain_defs published_state_def)
qed

section \<open>The publish gate\<close>

text \<open>
  C6. The claim is that an artifact whose publisher or name does not match the requested
  id is written to the console and passed over, and that the loop goes on with the
  remaining artifacts. For an artifact without XML manifest the loop does so: it writes
  that it found \<open>undefined\<close> and publishes the next artifact. For an artifact whose identity
  element has no publisher attribute, line 93 calls \<open>toLowerCase\<close> on \<open>undefined\<close>: the
  exported function throws a type error, writes no mismatch, and the next artifact, which
  matches the id, is not published.
\<close>

theorem missing_publisher_stops_publish_gate:
  "publishExtension recording_world ''acme.tool''
     [''/tmp/artifacts/anonymous.vsix'', ''/tmp/artifacts/acme.tool.vsix''] credential_state
   = (Inl (TypeError ''Cannot read properties of undefined (reading toLowerCase)''),
      credential_state\<lparr>console :=
        [ConsoleLog ''Attempting to publish acme.tool to Open VSX'']\<rparr>)
   \<and> world (snd (publishExtension recording_world ''acme.tool''
        [''/tmp/artifacts/anonymous.vsix'', ''/tmp/artifacts/acme.tool.vsix''] credential_state))
     = []
   \<and> publishExtension recording_world ''acme.tool''
       [''/tmp/artifacts/bare.vsix'', ''/tmp/artifacts/acme.tool.vsix''] credential_state
     = (Inr (), credential_state\<lparr>world := [''/tmp/artifacts/acme.tool.vsix''],
         console := [
           ConsoleLog ''Attempting to publish acme.tool to Open VSX'',
           ConsoleError ''Namespace name mismatch. Expected acme, but found undefined'',
           ConsoleInfo ''Publishing extension acme.tool'',
           ConsoleLog (''Published /tmp/artifacts/acme.tool.vsix to ''
             @ ''https://open-vsx.org/extension/acme/tool'')]\<rparr>)"
  by (simp add: publish_defs build_defs prog_defs plain_defs recording_world_def
      credential_state_def manifest_of_def)

section \<open>Errors of a build\<close>

text \<open>
  C7. The claim is that an error of a build is written to the console, sets the exit code
  when it is not the benign one, and never stops the processing of the other targets. On a
  machine without \<open>pyenv\<close>, for an artifact without license, the \<open>try\<close> block throws the
  license error, the \<open>catch\<close> block sets the exit code to 1, and then the command of the
  \<open>finally\<close> block fails: \<open>buildVersion\<close> throws that failure, so does the exported
  function, and the second target is never attempted.
\<close>

theorem caught_error_then_cleanup_failure_aborts:
  "fst (buildVersion_try unlicensed_world two_target_extension
          (snd (announce two_target_extension source_state)))
     = Inl (new_Error ''acme.tool: license is missing'')
   \<and> fst (buildVersion unlicensed_world two_target_extension source_state)
     = Inl (ErrorObj ''Error'' ''Command failed: pyenv global 3.8'')
   \<and> exitCode (snd (buildVersion unlicensed_world two_target_extension source_state)) = Some 1
   \<and> ErrorThrown (new_Error ''acme.tool: license is missing'')
       \<in> set (console (snd (buildVersion unlicensed_world two_target_extension source_state)))
   \<and> ErrorThrown (ErrorObj ''Error'' ''Command failed: pyenv global 3.8'')
       \<notin> set (console (snd (buildVersion unlicensed_world two_target_extension source_state)))
   \<and> LogThrown (ErrorObj ''Error'' ''Command failed: pyenv global 3.8'')
       \<notin> set (console (snd (buildVersion unlicensed_world two_target_extension source_state)))
   \<and> fst (buildExtension unlicensed_world two_target_extension source_state)
     = Inl (ErrorObj ''Error'' ''Command failed: pyenv global 3.8'')
   \<and> build_attempts (console (snd (buildExtension unlicensed_world two_target_extension
                                     source_state)))
     = [(''acme.tool'', ''linux-x64'')]"
  by (simp add: source_defs build_defs prog_defs plain_defs no_pyenv_world_def
      unlicensed_world_def two_target_extension_def source_state_def indexOf_def)

section \<open>The prerequisite step and files left in the artifact directory\<close>

text \<open>
  C8. The claim is that the prerequisite step leaves an artifact directory without files
  from before. When the directory exists, the step calls \<open>rmSync\<close> on the directory path
  followed by a star, which names no file, and drops the error: a file that was in the
  directory is still there afterwards, and the state is the one before.
\<close>

theorem ensureBuildPrerequisites_keeps_leftover:
  "ensureBuildPrerequisites plain_world leftover_state = (Inr (), leftover_state)
   \<and> fs (snd (ensureBuildPrerequisites plain_world leftover_state)) ''/tmp/artifacts/old.vsix''
       = Some (File ''old'')"
  by (simp add: ensureBuildPrerequisites_def prog_defs plain_world_def leftover_state_def
      no_options_def)

section \<open>Rejected registry lookups\<close>

text \<open>
  C9. Let \<open>reg\<close> give the outcome of the registry lookup for each dependency: rejected
  (\<open>Inl\<close>) or fulfilled. The loop over the dependencies collects exactly those that are not
  shortcut and whose lookup is fulfilled with no extension; it collects the same list when
  every rejected lookup is replaced by a fulfilled one that finds the extension. When every
  lookup is rejected the list is empty, and the dependency gate passes (given that no
  dependency is on the list of extensions that cannot be published and that the catalogue
  is read).
\<close>

theorem rejected_lookup_is_not_missing:
  assumes reg: "\<forall>d outside. fst (getExtension X d outside) = reg d"
  shows "fst (dependency_lookup X keys deps [] s)
           = Inr (filter (\<lambda>d. \<not> (truthy (env s ''SKIP_PUBLISH'')
                                   \<and> truthy (find (\<lambda>key. key = d) keys))
                               \<and> reg d = Inr None) deps)
         \<and> fst (dependency_lookup X keys deps [] s)
           = fst (dependency_lookup
                    (X\<lparr>getExtension := (\<lambda>d outside.
                         case getExtension X d outside of
                           (Inl e, outside') \<Rightarrow> (Inr (Some (PublishedExtension d)), outside')
                         | (Inr x, outside') \<Rightarrow> (Inr x, outside'))\<rparr>) keys deps [] s)
         \<and> ((\<forall>d \<in> set deps. \<exists>e. reg d = Inl e) \<longrightarrow>
              fst (dependency_lookup X keys deps [] s) = Inr [])
         \<and> ((\<forall>d \<in> set deps. \<exists>e. reg d = Inl e)
              \<and> extensionDependencies man = Some deps
              \<and> (\<forall>d \<in> set deps. \<not> isBuiltIn d \<longrightarrow> d \<notin> set (cannotPublish X))
              \<and> fs s ''./extensions.json'' = Some (File text)
              \<and> catalogue_keys X text = Inr keys \<longrightarrow>
              fst (dependency_gate X extension (Some man) s) = Inr ())"
proof -
  let ?X = "X\<lparr>getExtension := (\<lambda>d outside.
                         case getExtension X d outside of
                           (Inl e, outside') \<Rightarrow> (Inr (Some (PublishedExtension d)), outside')
                         | (Inr x, outside') \<Rightarrow> (Inr x, outside'))\<rparr>"
  let ?reg = "\<lambda>d. case reg d of Inl e \<Rightarrow> Inr (Some (PublishedExtension d)) | Inr x \<Rightarrow> Inr x"
  have first: "fst (dependency_lookup X keys deps [] s)
           = Inr (filter (\<lambda>d. \<not> (truthy (env s ''SKIP_PUBLISH'')
                                   \<and> truthy (find (\<lambda>key. key = d) keys))
                               \<and> reg d = Inr None) deps)"
    using dependency_lookup_result[OF reg, of keys deps "[]" s] by simp
  have reg': "\<forall>d outside. fst (getExtension ?X d outside) = ?reg d"
  proof (intro allI)
    fix d outside
    obtain r outside' where g: "getExtension X d outside = (r, outside')"
      by (cases "getExtension X d outside")
    then have r: "reg d = r" using reg by (metis fst_conv)
    show "fst (getExtension ?X d outside) = ?reg d"
      unfolding r using g by (cases r) simp_all
  qed
  have same: "(?reg d = Inr None) = (reg d = Inr None)" for d
    by (cases "reg d") simp_all
  have second: "fst (dependency_lookup X keys deps [] s) = fst (dependency_lookup ?X keys deps [] s)"
    unfolding first using dependency_lookup_result[OF reg', of keys deps "[]" s]
    by (simp add: same)
  have third: "(\<forall>d \<in> set deps. \<exists>e. reg d = Inl e) \<longrightarrow>
              fst (dependency_lookup X keys deps [] s) = Inr []"
    unfolding first by (auto simp add: filter_empty_conv)
  have fourth: "(\<forall>d \<in> set deps. \<exists>e. reg d = Inl e)
              \<and> extensionDependencies man = Some deps
              \<and> (\<forall>d \<in> set deps. \<not> isBuiltIn d \<longrightarrow> d \<notin> set (cannotPublish X))
              \<and> fs s ''./extensions.json'' = Some (File text)
              \<and> catalogue_keys X text = Inr keys \<longrightarrow>
              fst (dependency_gate X extension (Some man) s) = Inr ()"
  proof (intro impI, elim conjE)
    assume down: "\<forall>d \<in> set deps. \<exists>e. reg d = Inl e"
      and deps: "extensionDependencies man = Some deps"
      and publishable: "\<forall>d \<in> set deps. \<not> isBuiltIn d \<longrightarrow> d \<notin> set (cannotPublish X)"
      and catalogue: "fs s ''./extensions.json'' = Some (File text)"
                     "catalogue_keys X text = Inr keys"
    have none: "filter (\<lambda>d. d \<in> set (cannotPublish X)) (filter (\<lambda>d. \<not> isBuiltIn d) deps) = []"
      using publishable by (auto simp add: filter_empty_conv)
    have "filter (\<lambda>d. \<not> (truthy (env s ''SKIP_PUBLISH'')
                              \<and> truthy (find (\<lambda>key. key = d) keys))
                         \<and> reg d = Inr None) (filter (\<lambda>d. \<not> isBuiltIn d) deps) = []"
      using down by (auto simp add: filter_empty_conv)
    then show "fst (dependency_gate X extension (Some man) s) = Inr ()"
      using dependency_gate_result[OF deps none catalogue reg, of extension]
      by (simp add: Let_def)
  qed
  show ?thesis
    using first second third fourth by blast
qed

theorem rejected_lookup_is_not_missing_witness:
  "fst (dependency_lookup registry_down_world [] [''acme.lib'', ''acme.other''] [] catalogue_state)
     = Inr []
   \<and> fst (dependency_gate registry_down_world plain_extension
            (Some (plain_manifest\<lparr>extensionDependencies := Some [''acme.lib'', ''acme.other'']\<rparr>))
            catalogue_state) = Inr ()"
proof -
  have reg: "\<forall>d outside. fst (getExtension registry_down_world d outside)
               = Inl (ErrorObj ''Error'' ''connect ECONNREFUSED'')"
    by (simp add: registry_down_world_def plain_defs)
  have down: "\<forall>d \<in> set [''acme.lib'', ''acme.other''].
                \<exists>e. (Inl (ErrorObj ''Error'' ''connect ECONNREFUSED'')
                       :: thrown + publishedExtension option) = Inl e"
    by simp
  have deps: "extensionDependencies
                (plain_manifest\<lparr>extensionDependencies := Some [''acme.lib'', ''acme.other'']\<rparr>)
              = Some [''acme.lib'', ''acme.other'']"
    by simp
  have publishable: "\<forall>d \<in> set [''acme.lib'', ''acme.other''].
                       \<not> isBuiltIn d \<longrightarrow> d \<notin> set (cannotPublish registry_down_world)"
    by (simp add: registry_down_world_def plain_defs)
  have catalogue: "fs catalogue_state ''./extensions.json'' = Some (File ''{}'')"
      "catalogue_keys registry_down_world ''{}'' = Inr []"
    by (simp_all add: catalogue_state_def registry_down_world_def plain_defs)
  show ?thesis
    using rejected_lookup_is_not_missing[OF reg, of "[]" "[''acme.lib'', ''acme.other'']"
        catalogue_state
        "plain_manifest\<lparr>extensionDependencies := Some [''acme.lib'', ''acme.other'']\<rparr>"
        "''{}''" plain_extension]
      down deps publishable catalogue
    by simp
qed

section \<open>The defaults of the driver\<close>

text \<open>
  C10. The driver first gives \<open>SKIP_PUBLISH\<close> and \<open>FORCE\<close> the value \<open>true\<close> where they are
  unset, and leaves a value that is set; the catalogue script runs in the state after that.
  From an environment where both are unset, both are \<open>true\<close> in the state in which each
  extension of the catalogue is taken up: the run for a catalogue that continues after
  \<open>processed\<close> takes up the next entry in the state that the run for \<open>processed\<close> ends in.
  The build of an extension, each build of a target and the steps before the gates leave
  the two variables as they are. With \<open>FORCE\<close> being \<open>true\<close>, the version gate lets a build
  with a registry version equal to the resolved version go on; with \<open>SKIP_PUBLISH\<close> being
  \<open>true\<close>, a dependency that is a key of the catalogue is passed over without a lookup.
\<close>

theorem driver_defaults:
  "env (snd (set_defaults s)) ''SKIP_PUBLISH''
     = Some (case env s ''SKIP_PUBLISH'' of None \<Rightarrow> ''true'' | Some old \<Rightarrow> old)
   \<and> env (snd (set_defaults s)) ''FORCE''
     = Some (case env s ''FORCE'' of None \<Rightarrow> ''true'' | Some old \<Rightarrow> old)
   \<and> driver X script s = script (driver_callback X) (snd (set_defaults s))
   \<and> (env s ''SKIP_PUBLISH'' = None \<and> env s ''FORCE'' = None \<longrightarrow>
        (\<forall>processed.
           env (snd (driver X (publishExtensionsScript processed) s)) ''FORCE'' = Some ''true''
           \<and> env (snd (driver X (publishExtensionsScript processed) s)) ''SKIP_PUBLISH''
               = Some ''true''))
   \<and> (\<forall>processed entry remaining.
        driver X (publishExtensionsScript (processed @ entry # remaining)) s
          = bindP (tryCatch (driver_callback X (fst entry) (snd entry))
                     (\<lambda>error. console_write (ErrorThrown error)))
              (\<lambda>u. publishExtensionsScript remaining (driver_callback X))
              (snd (driver X (publishExtensionsScript processed) s)))
   \<and> preserves (\<lambda>s. (env s ''FORCE'', env s ''SKIP_PUBLISH'')) (buildExtension X extension)
   \<and> preserves (\<lambda>s. (env s ''FORCE'', env s ''SKIP_PUBLISH'')) (buildVersion X extension)
   \<and> preserves (\<lambda>s. (env s ''FORCE'', env s ''SKIP_PUBLISH'')) (announce extension)
   \<and> preserves (\<lambda>s. (env s ''FORCE'', env s ''SKIP_PUBLISH'')) (resolve X extension)
   \<and> preserves (\<lambda>s. (env s ''FORCE'', env s ''SKIP_PUBLISH'')) (version_gate X v)
   \<and> preserves (\<lambda>s. (env s ''FORCE'', env s ''SKIP_PUBLISH''))
        (license_gate X extension packagePath xm m)
   \<and> (\<forall>s'. env s' ''FORCE'' = Some ''true'' \<and> ovsxVersion (ctx s') = Some ov
          \<and> semver_compare X ov v = Inr 0 \<longrightarrow>
        version_gate X v s' = (Inr True, s'))
   \<and> (\<forall>s'. env s' ''SKIP_PUBLISH'' = Some ''true'' \<and> d \<in> set keys \<and> d \<noteq> [] \<longrightarrow>
        dependency_lookup X keys (d # rest) found s' = dependency_lookup X keys rest found s')"
proof -
  let ?obs = "\<lambda>s. (env s ''FORCE'', env s ''SKIP_PUBLISH'')"
  note b = blind_defaults
  note f = build_blind_framed[OF blind_defaults]
  have a1: "env (snd (set_defaults s)) ''SKIP_PUBLISH''
     = Some (case env s ''SKIP_PUBLISH'' of None \<Rightarrow> ''true'' | Some old \<Rightarrow> old)"
    by (simp add: set_defaults_result)
  have a2: "env (snd (set_defaults s)) ''FORCE''
     = Some (case env s ''FORCE'' of None \<Rightarrow> ''true'' | Some old \<Rightarrow> old)"
    by (simp add: set_defaults_result)
  have a3: "driver X script s = script (driver_callback X) (snd (set_defaults s))" for script
    by (rule driver_unfold)
  have a4: "env s ''SKIP_PUBLISH'' = None \<and> env s ''FORCE'' = None \<longrightarrow>
        (\<forall>processed.
           env (snd (driver X (publishExtensionsScript processed) s)) ''FORCE'' = Some ''true''
           \<and> env (snd (driver X (publishExtensionsScript processed) s)) ''SKIP_PUBLISH''
               = Some ''true'')"
  proof (intro impI allI)
    fix processed
    assume unset: "env s ''SKIP_PUBLISH'' = None \<and> env s ''FORCE'' = None"
    have "?obs (snd (publishExtensionsScript processed (driver_callback X) (snd (set_defaults s))))
            = ?obs (snd (set_defaults s))"
      using blind_publishExtensionsScript[OF b, of processed X] by (simp add: preserves_def)
    then show "env (snd (driver X (publishExtensionsScript processed) s)) ''FORCE'' = Some ''true''
           \<and> env (snd (driver X (publishExtensionsScript processed) s)) ''SKIP_PUBLISH''
               = Some ''true''"
      unfolding a3 using a1 a2 unset by simp
  qed
  have a5: "driver X (publishExtensionsScript (processed @ entry # remaining)) s
          = bindP (tryCatch (driver_callback X (fst entry) (snd entry))
                     (\<lambda>error. console_write (ErrorThrown error)))
              (\<lambda>u. publishExtensionsScript remaining (driver_callback X))
              (snd (driver X (publishExtensionsScript processed) s))" for processed entry remaining
    unfolding a3 publishExtensionsScript_append[of processed "entry # remaining"]
    by simp
  have a6: "\<forall>s'. env s' ''FORCE'' = Some ''true'' \<and> ovsxVersion (ctx s') = Some ov
          \<and> semver_compare X ov v = Inr 0 \<longrightarrow>
        version_gate X v s' = (Inr True, s')"
    by (simp add: version_gate_def semver_gt_def semver_eq_def prog_defs)
  have a7: "\<forall>s'. env s' ''SKIP_PUBLISH'' = Some ''true'' \<and> d \<in> set keys \<and> d \<noteq> [] \<longrightarrow>
        dependency_lookup X keys (d # rest) found s' = dependency_lookup X keys rest found s'"
    by (simp add: bindP_def get_env_def find_key truthy_def)
  have a5': "\<forall>processed entry remaining.
        driver X (publishExtensionsScript (processed @ entry # remaining)) s
          = bindP (tryCatch (driver_callback X (fst entry) (snd entry))
                     (\<lambda>error. console_write (ErrorThrown error)))
              (\<lambda>u. publishExtensionsScript remaining (driver_callback X))
              (snd (driver X (publishExtensionsScript processed) s))"
    using a5 by blast
  show ?thesis
    by (intro conjI a1 a2 a3 a4 a5' a6 a7 blind_buildExtension[OF b] blind_buildVersion[OF b]
      framed_announce[OF f build_blind_console[OF blind_defaults]] framed_resolve[OF f] framed_version_gate[OF f]
      framed_license_gate[OF f])
qed

theorem driver_defaults_witness:
  "env (snd (driver plain_world
               (publishExtensionsScript [(plain_extension, ctx (published_state None))])
               (published_state None))) ''FORCE'' = Some ''true''
   \<and> env (snd (driver plain_world
               (publishExtensionsScript [(plain_extension, ctx (published_state None))])
               (published_state None))) ''SKIP_PUBLISH'' = Some ''true''
   \<and> version_gate plain_world ''1.0.0'' (published_state (Some ''true''))
       = (Inr True, published_state (Some ''true''))
   \<and> dependency_lookup plain_world [''acme.lib''] [''acme.lib'', ''acme.other''] []
        ((published_state None)\<lparr>env := [''SKIP_PUBLISH'' \<mapsto> ''true'']\<rparr>)
       = dependency_lookup plain_world [''acme.lib''] [''acme.other''] []
           ((published_state None)\<lparr>env := [''SKIP_PUBLISH'' \<mapsto> ''true'']\<rparr>)
   \<and> fs (snd (driver plain_world
               (publishExtensionsScript [(plain_extension, ctx (published_state None))])
               (published_state None))) ''/tmp/artifacts/acme.tool.vsix'' = Some (File ''vsix'')"
proof -
  note t = driver_defaults[of "published_state None" plain_world
      "publishExtensionsScript [(plain_extension, ctx (published_state None))]"
      plain_extension "''1.0.0''" None None None "''1.0.0''" "''acme.lib''" "[''acme.lib'']"
      "[''acme.other'']" "[]"]
  have unset: "env (published_state None) ''SKIP_PUBLISH'' = None
               \<and> env (published_state None) ''FORCE'' = None"
    by (simp add: published_state_def)
  note run = t[THEN conjunct2, THEN conjunct2, THEN conjunct2, THEN conjunct1, rule_format,
      OF unset, of "[(plain_extension, ctx (published_state None))]"]
  have gate: "env (published_state (Some ''true'')) ''FORCE'' = Some ''true''
        \<and> ovsxVersion (ctx (published_state (Some ''true''))) = Some ''1.0.0''
        \<and> semver_compare plain_world ''1.0.0'' ''1.0.0'' = Inr 0"
    by (simp add: published_state_def plain_defs)
  note bypass = t[THEN conjunct2, THEN conjunct2, THEN conjunct2, THEN conjunct2, THEN conjunct2,
      THEN conjunct2, THEN conjunct2, THEN conjunct2, THEN conjunct2, THEN conjunct2,
      THEN conjunct2, THEN conjunct1, rule_format, OF gate]
  have known: "env ((published_state None)\<lparr>env := [''SKIP_PUBLISH'' \<mapsto> ''true'']\<rparr>)
                 ''SKIP_PUBLISH'' = Some ''true''
        \<and> ''acme.lib'' \<in> set [''acme.lib''] \<and> ''acme.lib'' \<noteq> []"
    by simp
  note shortcut = t[THEN conjunct2, THEN conjunct2, THEN conjunct2, THEN conjunct2, THEN conjunct2,
      THEN conjunct2, THEN conjunct2, THEN conjunct2, THEN conjunct2, THEN conjunct2,
      THEN conjunct2, THEN conjunct2, rule_format, OF known]
  have copied: "fs (snd (driver plain_world
               (publishExtensionsScript [(plain_extension, ctx (published_state None))])
               (published_state None))) ''/tmp/artifacts/acme.tool.vsix'' = Some (File ''vsix'')"
    by (simp add: driver_def set_defaults_def driver_callback_def buildExtension_def
        push_options_def publish_defs build_defs prog_defs plain_defs published_state_def)
  show ?thesis
    using run bypass shortcut copied by simp
qed

end
